theory Spec2Isabelle
  imports Main "HOL-Library.Char_ord" "HOL-Library.List_Lexorder"
begin

section \<open>CipherDock: a shallow embedding of CipherDock.py\<close>

text \<open>
  The program is a Tk front end that drives \<^verbatim>\<open>cryptsetup\<close>, \<^verbatim>\<open>udisksctl\<close>,
  \<^verbatim>\<open>mkfs.ext4\<close>, \<^verbatim>\<open>e2label\<close>, \<^verbatim>\<open>truncate\<close>, \<^verbatim>\<open>chown\<close> and \<^verbatim>\<open>df\<close> through
  \<^verbatim>\<open>subprocess\<close>. The embedding has three layers:
  \<^item> the string functions of Python that the source calls (\<^verbatim>\<open>strip\<close>, \<^verbatim>\<open>split\<close>,
    \<^verbatim>\<open>replace\<close>, \<^verbatim>\<open>endswith\<close>, \<^verbatim>\<open>os.path.splitext\<close>, ...), on strings read as
    sequences of code points below 256;
  \<^item> the operating system as a parameter: a record of functions over an abstract world
    \<open>'w\<close> (run a command, list a directory, ...), so that every theorem about the order
    of commands holds whatever the external tools do;
  \<^item> the methods of \<^verbatim>\<open>SecureContainerApp\<close>, as state-passing functions that thread the
    world and append to a trace of events (commands run, dialogs shown, log lines).
\<close>

subsection \<open>Python string primitives\<close>

text \<open>Whitespace as \<^verbatim>\<open>str.isspace\<close> sees it among the code points below 256.\<close>

definition is_space :: "char \<Rightarrow> bool" where
  "is_space c = (c \<in> set [CHR 0x09, CHR 0x0A, CHR 0x0B, CHR 0x0C, CHR 0x0D,
                            CHR 0x1C, CHR 0x1D, CHR 0x1E, CHR 0x1F, CHR 0x20,
                            CHR 0x85, CHR 0xA0])"

text \<open>\<^verbatim>\<open>s.strip()\<close>\<close>

definition py_strip :: "string \<Rightarrow> string" where
  "py_strip s = rev (dropWhile is_space (rev (dropWhile is_space s)))"

text \<open>\<^verbatim>\<open>s.endswith(suf)\<close> and \<^verbatim>\<open>s.startswith(pre)\<close>\<close>

definition endswith :: "string \<Rightarrow> string \<Rightarrow> bool" where
  "endswith s suf = (length suf \<le> length s \<and> drop (length s - length suf) s = suf)"

definition startswith :: "string \<Rightarrow> string \<Rightarrow> bool" where
  "startswith s pre = (take (length pre) s = pre)"

text \<open>
  \<^verbatim>\<open>s.upper()\<close> on code points below 256: the ASCII letters, the letters \<^verbatim>\<open>0xE0\<close> to
  \<^verbatim>\<open>0xFE\<close> but the division sign, and the sharp s, which becomes \<^verbatim>\<open>SS\<close>. The micro
  sign and the y with diaeresis have their capitals beyond 255; they are left as they
  are, and like their capitals they are neither a unit letter nor part of a number.
\<close>

definition upper_char :: "char \<Rightarrow> string" where
  "upper_char c =
     (if c = CHR 0xDF then ''SS''
      else
        (case map_of
                (zip (''abcdefghijklmnopqrstuvwxyz'' @
                      [CHR 0xE0, CHR 0xE1, CHR 0xE2, CHR 0xE3, CHR 0xE4, CHR 0xE5, CHR 0xE6,
                       CHR 0xE7, CHR 0xE8, CHR 0xE9, CHR 0xEA, CHR 0xEB, CHR 0xEC, CHR 0xED,
                       CHR 0xEE, CHR 0xEF, CHR 0xF0, CHR 0xF1, CHR 0xF2, CHR 0xF3, CHR 0xF4,
                       CHR 0xF5, CHR 0xF6, CHR 0xF8, CHR 0xF9, CHR 0xFA, CHR 0xFB, CHR 0xFC,
                       CHR 0xFD, CHR 0xFE])
                     (''ABCDEFGHIJKLMNOPQRSTUVWXYZ'' @
                      [CHR 0xC0, CHR 0xC1, CHR 0xC2, CHR 0xC3, CHR 0xC4, CHR 0xC5, CHR 0xC6,
                       CHR 0xC7, CHR 0xC8, CHR 0xC9, CHR 0xCA, CHR 0xCB, CHR 0xCC, CHR 0xCD,
                       CHR 0xCE, CHR 0xCF, CHR 0xD0, CHR 0xD1, CHR 0xD2, CHR 0xD3, CHR 0xD4,
                       CHR 0xD5, CHR 0xD6, CHR 0xD8, CHR 0xD9, CHR 0xDA, CHR 0xDB, CHR 0xDC,
                       CHR 0xDD, CHR 0xDE])) c of
           None \<Rightarrow> [c]
         | Some u \<Rightarrow> [u]))"

definition py_upper :: "string \<Rightarrow> string" where
  "py_upper s = concat (map upper_char s)"

definition is_ascii :: "char \<Rightarrow> bool" where
  "is_ascii c = (\<not> digit7 c)"

definition is_digit :: "char \<Rightarrow> bool" where
  "is_digit c = (c \<in> set ''0123456789'')"

definition digit_val :: "char \<Rightarrow> nat" where
  "digit_val c = (case map_of (zip ''0123456789'' [0, 1, 2, 3, 4, 5, 6, 7, 8, 9]) c of
                    None \<Rightarrow> 0
                  | Some d \<Rightarrow> d)"

text \<open>The value of a string of decimal digits, most significant digit first.\<close>

definition dec_value :: "string \<Rightarrow> nat" where
  "dec_value s = foldl (\<lambda>n c. 10 * n + digit_val c) 0 s"

text \<open>
  The text after the first occurrence of \<open>sep\<close>: \<^verbatim>\<open>s.split(sep, 1)[1]\<close> when
  \<^verbatim>\<open>sep in s\<close>, and \<open>None\<close> when \<open>sep\<close> does not occur.
\<close>

fun after_first :: "string \<Rightarrow> string \<Rightarrow> string option" where
  "after_first sep [] = (if sep = [] then Some [] else None)"
| "after_first sep (c # cs) =
     (if startswith (c # cs) sep then Some (drop (length sep) (c # cs))
      else after_first sep cs)"

text \<open>\<^verbatim>\<open>s.split(ch)\<close> for a one-character separator: empty fields are kept.\<close>

fun split_on_acc :: "char \<Rightarrow> string \<Rightarrow> string \<Rightarrow> string list" where
  "split_on_acc ch cur [] = [rev cur]"
| "split_on_acc ch cur (c # cs) =
     (if c = ch then rev cur # split_on_acc ch [] cs else split_on_acc ch (c # cur) cs)"

definition split_on :: "char \<Rightarrow> string \<Rightarrow> string list" where
  "split_on ch s = split_on_acc ch [] s"

text \<open>\<^verbatim>\<open>s.split()\<close>: the maximal runs of characters that are not whitespace.\<close>

fun split_ws_acc :: "string \<Rightarrow> string \<Rightarrow> string list" where
  "split_ws_acc cur [] = (if cur = [] then [] else [rev cur])"
| "split_ws_acc cur (c # cs) =
     (if is_space c
      then (if cur = [] then split_ws_acc [] cs else rev cur # split_ws_acc [] cs)
      else split_ws_acc (c # cur) cs)"

definition split_ws :: "string \<Rightarrow> string list" where
  "split_ws s = split_ws_acc [] s"

subsection \<open>Numbers read from text\<close>

text \<open>The exceptions of Python that the source meets and does not always catch.\<close>

datatype py_error = ValueError | OverflowError

text \<open>
  A Python \<^verbatim>\<open>float\<close> is an IEEE 754 binary64 number. A finite one is kept as its sign,
  its significand and the exponent of its last place: \<open>Finite neg m p\<close> is
  \<open>\<plusminus> m * 2^p\<close> with \<open>m \<le> 2^53\<close> and \<open>p \<ge> -1074\<close> (a significand that rounding has
  carried to \<open>2^53\<close> is kept as it is: the number is the same).
\<close>

datatype pyfloat = Finite bool nat int | Infinite bool | NaN

text \<open>The number of binary digits of a natural number.\<close>

fun bitlen :: "nat \<Rightarrow> nat" where
  "bitlen n = (if n = 0 then 0 else Suc (bitlen (n div 2)))"

declare bitlen.simps [simp del]

text \<open>\<open>\<lfloor>log\<^sub>2 (n / d)\<rfloor>\<close> for positive \<open>n\<close> and \<open>d\<close>.\<close>

definition floor_log2 :: "nat \<Rightarrow> nat \<Rightarrow> int" where
  "floor_log2 n d =
     (let k = int (bitlen n) - int (bitlen d) in
      if (if 0 \<le> k then d * 2 ^ nat k \<le> n else d \<le> n * 2 ^ nat (- k)) then k else k - 1)"

text \<open>The integer nearest to \<open>n / d\<close>, a tie going to the even one.\<close>

definition round_half_even :: "nat \<Rightarrow> nat \<Rightarrow> nat" where
  "round_half_even n d =
     (let f = n div d; r = n mod d in
      if 2 * r < d then f
      else if d < 2 * r then f + 1
      else if even f then f
      else f + 1)"

text \<open>
  The binary64 number nearest to \<open>n / d\<close> (round to nearest, ties to even): the last
  place is 52 binary places below the leading digit, but not below \<open>2^-1074\<close>; what
  rounds to \<open>2^1024\<close> or more is infinite.
\<close>

definition round_double :: "bool \<Rightarrow> nat \<Rightarrow> nat \<Rightarrow> pyfloat" where
  "round_double neg n d =
     (if n = 0 then Finite neg 0 0
      else
        let p = max (floor_log2 n d - 52) (- 1074);
            m = (if 0 \<le> p then round_half_even n (d * 2 ^ nat p)
                 else round_half_even (n * 2 ^ nat (- p)) d)
        in
        if 0 \<le> p \<and> 2 ^ 1024 \<le> m * 2 ^ nat p then Infinite neg else Finite neg m p)"

text \<open>
  \<^verbatim>\<open>val * mult\<close> for a float and a positive \<^verbatim>\<open>int\<close> below \<open>2^53\<close> (which converts to
  a float exactly): the exact product, rounded.
\<close>

definition float_times_int :: "pyfloat \<Rightarrow> nat \<Rightarrow> pyfloat" where
  "float_times_int x k =
     (case x of
        Finite neg m p \<Rightarrow>
          if 0 \<le> p then round_double neg (m * k * 2 ^ nat p) 1
          else round_double neg (m * k) (2 ^ nat (- p))
      | Infinite neg \<Rightarrow> Infinite neg
      | NaN \<Rightarrow> NaN)"

text \<open>
  \<^verbatim>\<open>int(x)\<close> for a float: truncation towards zero; \<^verbatim>\<open>ValueError\<close> for NaN and
  \<^verbatim>\<open>OverflowError\<close> for an infinity.
\<close>

definition int_of_float :: "pyfloat \<Rightarrow> py_error + int" where
  "int_of_float x =
     (case x of
        Finite neg m p \<Rightarrow>
          let a = (if 0 \<le> p then int (m * 2 ^ nat p) else int (m div 2 ^ nat (- p)))
          in Inr (if neg then - a else a)
      | Infinite neg \<Rightarrow> Inl OverflowError
      | NaN \<Rightarrow> Inl ValueError)"

text \<open>
  \<^verbatim>\<open>float(s)\<close> for a string, as CPython reads it.
  \<^item> Whitespace that is not ASCII becomes a space; any other character that is not ASCII
    makes the string invalid (below 256 there is no decimal digit besides \<^verbatim>\<open>0\<close> to
    \<^verbatim>\<open>9\<close>).
  \<^item> An underscore is dropped when a digit stands before it and a digit after it, and
    makes the string invalid otherwise.
  \<^item> The whitespace of C (\<^verbatim>\<open>Py_ISSPACE\<close>: tab, line feed, vertical tab, form feed,
    carriage return, space) is stripped from both ends.
  \<^item> What remains is an optional sign and then \<^verbatim>\<open>inf\<close>, \<^verbatim>\<open>infinity\<close> or \<^verbatim>\<open>nan\<close> in
    any case, or digits with an optional point (at least one digit before or after it)
    and an optional exponent \<^verbatim>\<open>e\<close>, optional sign, digits.
  \<^item> The decimal number is rounded to the nearest binary64 number, a tie to the even
    one; a number too large for binary64 becomes an infinity (\<^verbatim>\<open>float\<close> raises no
    \<^verbatim>\<open>OverflowError\<close> for a string).
  The strings of this theory hold code points below 256 only: the decimal digits that
  Unicode has beyond them, which \<^verbatim>\<open>float\<close> reads as well, cannot be written here.
  \<open>Inl ValueError\<close> is the \<^verbatim>\<open>ValueError\<close> that \<^verbatim>\<open>float\<close> raises.
\<close>

definition c_isspace :: "char \<Rightarrow> bool" where
  "c_isspace c = (c \<in> set [CHR 0x09, CHR 0x0A, CHR 0x0B, CHR 0x0C, CHR 0x0D, CHR 0x20])"

definition c_strip :: "string \<Rightarrow> string" where
  "c_strip s = rev (dropWhile c_isspace (rev (dropWhile c_isspace s)))"

definition to_ascii :: "string \<Rightarrow> string option" where
  "to_ascii s =
     (if list_ex (\<lambda>c. \<not> is_ascii c \<and> \<not> is_space c) s then None
      else Some (map (\<lambda>c. if is_ascii c then c else CHR 0x20) s))"

fun drop_underscores :: "char \<Rightarrow> string \<Rightarrow> string option" where
  "drop_underscores prev [] = (if prev = CHR ''_'' then None else Some [])"
| "drop_underscores prev (c # cs) =
     (if c = CHR ''_''
      then (if is_digit prev then drop_underscores c cs else None)
      else if prev = CHR ''_'' \<and> \<not> is_digit c then None
      else map_option ((#) c) (drop_underscores c cs))"

text \<open>A literal: a decimal number \<open>\<plusminus> D * 10^E\<close>, an infinity, or NaN.\<close>

datatype literal = LitNumber bool nat int | LitInf bool | LitNaN

definition parse_exponent :: "string \<Rightarrow> int option" where
  "parse_exponent s =
     (case s of
        [] \<Rightarrow> Some 0
      | c # cs \<Rightarrow>
          if c = CHR ''e'' \<or> c = CHR ''E''
          then (case cs of
                  [] \<Rightarrow> None
                | d # ds \<Rightarrow>
                    if d = CHR ''-''
                    then (if ds \<noteq> [] \<and> list_all is_digit ds
                          then Some (- int (dec_value ds)) else None)
                    else if d = CHR ''+''
                    then (if ds \<noteq> [] \<and> list_all is_digit ds
                          then Some (int (dec_value ds)) else None)
                    else if list_all is_digit (d # ds) then Some (int (dec_value (d # ds)))
                    else None)
          else None)"

definition parse_unsigned :: "bool \<Rightarrow> string \<Rightarrow> literal option" where
  "parse_unsigned neg s =
     (if py_upper s = ''INF'' \<or> py_upper s = ''INFINITY'' then Some (LitInf neg)
      else if py_upper s = ''NAN'' then Some LitNaN
      else
        let ip = takeWhile is_digit s;
            r1 = dropWhile is_digit s;
            (fp, r2) =
               (case r1 of
                  [] \<Rightarrow> ([], [])
                | c # cs \<Rightarrow>
                    if c = CHR ''.'' then (takeWhile is_digit cs, dropWhile is_digit cs)
                    else ([], r1))
        in
        if ip = [] \<and> fp = [] then None
        else (case parse_exponent r2 of
                None \<Rightarrow> None
              | Some e \<Rightarrow> Some (LitNumber neg (dec_value (ip @ fp)) (e - int (length fp)))))"

definition parse_literal :: "string \<Rightarrow> literal option" where
  "parse_literal s0 =
     (case to_ascii s0 of
        None \<Rightarrow> None
      | Some a \<Rightarrow>
          (case drop_underscores (CHR 0x00) a of
             None \<Rightarrow> None
           | Some b \<Rightarrow>
               (case c_strip b of
                  [] \<Rightarrow> None
                | c # cs \<Rightarrow>
                    if c = CHR ''-'' then parse_unsigned True cs
                    else if c = CHR ''+'' then parse_unsigned False cs
                    else parse_unsigned False (c # cs))))"

definition py_float :: "string \<Rightarrow> py_error + pyfloat" where
  "py_float s =
     (case parse_literal s of
        None \<Rightarrow> Inl ValueError
      | Some (LitNumber neg D E) \<Rightarrow>
          Inr (if 0 \<le> E then round_double neg (D * 10 ^ nat E) 1
               else round_double neg D (10 ^ nat (- E)))
      | Some (LitInf neg) \<Rightarrow> Inr (Infinite neg)
      | Some LitNaN \<Rightarrow> Inr NaN)"

text \<open>
  \<^verbatim>\<open>int(s)\<close> for a string: optional surrounding whitespace, an optional sign, then
  decimal digits in groups separated by single underscores. \<open>None\<close> is \<^verbatim>\<open>ValueError\<close>.
\<close>

fun digit_groups :: "bool \<Rightarrow> string \<Rightarrow> bool" where
  "digit_groups after_digit [] = after_digit"
| "digit_groups after_digit (c # cs) =
     (if is_digit c then digit_groups True cs
      else if c = CHR ''_'' \<and> after_digit then digit_groups False cs
      else False)"

definition py_int_unsigned :: "string \<Rightarrow> int option" where
  "py_int_unsigned s =
     (if digit_groups False s then Some (int (dec_value (filter is_digit s))) else None)"

definition py_int :: "string \<Rightarrow> int option" where
  "py_int s0 =
     (case py_strip s0 of
        [] \<Rightarrow> None
      | c # cs \<Rightarrow>
          if c = CHR ''-'' then map_option uminus (py_int_unsigned cs)
          else if c = CHR ''+'' then py_int_unsigned cs
          else py_int_unsigned (c # cs))"

subsection \<open>The size parser and the mount-path parser\<close>

text \<open>
  \<^verbatim>\<open>_parse_size_to_bytes\<close> (lines 547-564):
  \<^verbatim>\<open>
  s = s.strip().upper()
  mult = 1
  if s.endswith("G"):   mult = 1024**3; s = s[:-1]
  elif s.endswith("M"): mult = 1024**2; s = s[:-1]
  elif s.endswith("K"): mult = 1024;    s = s[:-1]
  try:
      val = float(s)
  except ValueError:
      return None
  return int(val * mult)
  \<close>
  \<open>SizeNone\<close> is the \<^verbatim>\<open>None\<close> returned when \<^verbatim>\<open>float\<close> raises; \<open>SizeRaises\<close> is an
  exception of \<^verbatim>\<open>int\<close>, which stands after the \<^verbatim>\<open>try\<close> and is not caught.
\<close>

datatype size_result = SizeNone | SizeBytes int | SizeRaises py_error

definition parse_size_to_bytes :: "string \<Rightarrow> size_result" where
  "parse_size_to_bytes s0 =
     (let s = py_upper (py_strip s0);
          (mult, s') =
             (if endswith s ''G'' then (1024 ^ 3, butlast s)
              else if endswith s ''M'' then (1024 ^ 2, butlast s)
              else if endswith s ''K'' then (1024, butlast s)
              else (1, s))
      in case py_float s' of
           Inl e \<Rightarrow> SizeNone
         | Inr val \<Rightarrow>
             (case int_of_float (float_times_int val mult) of
                Inl e \<Rightarrow> SizeRaises e
              | Inr size_bytes \<Rightarrow> SizeBytes size_bytes))"

text \<open>
  The mount-path parser of \<^verbatim>\<open>mount_container\<close> (lines 290-295), applied to the
  stripped output of \<^verbatim>\<open>udisksctl mount\<close>:
  \<^verbatim>\<open>
  mount_path = None
  if " at " in stdout:
      after_at = stdout.split(" at ", 1)[1]
      # Remove trailing period if present
      mount_path = after_at.replace(".", "").strip()
  \<close>
\<close>

definition parse_mount_path :: "string \<Rightarrow> string option" where
  "parse_mount_path stdout =
     (case after_first '' at '' stdout of
        None \<Rightarrow> None
      | Some after_at \<Rightarrow> Some (py_strip (filter (\<lambda>c. c \<noteq> CHR ''.'') after_at)))"

subsection \<open>Paths: \<^verbatim>\<open>os.path.join\<close>, \<^verbatim>\<open>os.path.splitext\<close>, \<^verbatim>\<open>os.path.commonpath\<close>\<close>

definition nl :: string where
  "nl = [CHR 0x0A]"

text \<open>\<^verbatim>\<open>sep.join(xs)\<close>\<close>

fun join_with :: "string \<Rightarrow> string list \<Rightarrow> string" where
  "join_with sep [] = []"
| "join_with sep [x] = x"
| "join_with sep (x # y # ys) = x @ sep @ join_with sep (y # ys)"

text \<open>\<^verbatim>\<open>os.path.join(a, b)\<close> of \<^verbatim>\<open>posixpath\<close>, for two arguments.\<close>

definition path_join :: "string \<Rightarrow> string \<Rightarrow> string" where
  "path_join a b =
     (if startswith b ''/'' then b
      else if a = [] \<or> endswith a ''/'' then a @ b
      else a @ ''/'' @ b)"

text \<open>\<^verbatim>\<open>s.rfind(ch)\<close>: the last index of \<open>ch\<close>, \<open>None\<close> for Python's \<open>-1\<close>.\<close>

fun rfind_from :: "char \<Rightarrow> string \<Rightarrow> nat \<Rightarrow> nat option \<Rightarrow> nat option" where
  "rfind_from ch [] i found = found"
| "rfind_from ch (c # cs) i found = rfind_from ch cs (Suc i) (if c = ch then Some i else found)"

definition rfind :: "char \<Rightarrow> string \<Rightarrow> nat option" where
  "rfind ch s = rfind_from ch s 0 None"

text \<open>
  \<^verbatim>\<open>os.path.splitext(p)\<close> (\<^verbatim>\<open>genericpath._splitext\<close>): the extension starts at the
  last dot of the last path component, unless that component has only dots before it.
\<close>

definition splitext :: "string \<Rightarrow> string \<times> string" where
  "splitext p =
     (let filenameIndex = (case rfind CHR ''/'' p of None \<Rightarrow> 0 | Some i \<Rightarrow> Suc i) in
      case rfind CHR ''.'' p of
        None \<Rightarrow> (p, [])
      | Some dotIndex \<Rightarrow>
          if filenameIndex \<le> dotIndex \<and>
             list_ex (\<lambda>c. c \<noteq> CHR ''.'') (take (dotIndex - filenameIndex) (drop filenameIndex p))
          then (take dotIndex p, drop dotIndex p)
          else (p, []))"

text \<open>
  \<^verbatim>\<open>os.path.commonpath([p, q])\<close> of \<^verbatim>\<open>posixpath\<close>: \<^verbatim>\<open>ValueError\<close> when one path is
  absolute and the other is not; otherwise both are split at \<^verbatim>\<open>/\<close>, empty and
  \<^verbatim>\<open>.\<close> components are dropped, and the longest common prefix of the two component
  lists is joined again (the library takes the prefix of the smaller list that agrees
  with the larger one; for two lists that is their longest common prefix).
\<close>

definition path_components :: "string \<Rightarrow> string list" where
  "path_components p = filter (\<lambda>c. c \<noteq> [] \<and> c \<noteq> ''.'') (split_on CHR ''/'' p)"

fun common_prefix :: "'a list \<Rightarrow> 'a list \<Rightarrow> 'a list" where
  "common_prefix (x # xs) (y # ys) = (if x = y then x # common_prefix xs ys else [])"
| "common_prefix xs ys = []"

definition commonpath :: "string \<Rightarrow> string \<Rightarrow> py_error + string" where
  "commonpath p q =
     (if startswith p ''/'' \<noteq> startswith q ''/'' then Inl ValueError
      else Inr ((if startswith p ''/'' then ''/'' else []) @
                join_with ''/'' (common_prefix (path_components p) (path_components q))))"

subsection \<open>The operating system, the configuration and the trace\<close>

text \<open>
  The external world is a parameter. A value of \<open>'w os\<close> gives, over a world \<open>'w\<close>:
  \<^item> \<open>exec argv stdin w\<close>: \<^verbatim>\<open>subprocess.run(argv, input=stdin)\<close> for a command that can
    be launched: its exit status, its standard output, and the world it leaves;
  \<^item> \<open>path_exists\<close>, \<open>path_isdir\<close>, \<open>listdir\<close>, \<open>realpath\<close>: the \<^verbatim>\<open>os\<close> and
    \<^verbatim>\<open>os.path\<close> functions of the same names;
  \<^item> \<open>makedirs p w\<close>: \<^verbatim>\<open>os.makedirs(p, exist_ok=True)\<close>; \<open>False\<close> when it raises;
  \<^item> \<open>proc_mounts w\<close>: the lines of \<^verbatim>\<open>/proc/mounts\<close>.
  The world changes only through \<open>exec\<close> and \<open>makedirs\<close>: dialogs and logging leave it
  as it is, and nothing else acts on it while one action runs.
\<close>

record 'w os =
  exec :: "string list \<Rightarrow> string option \<Rightarrow> 'w \<Rightarrow> (int \<times> string) \<times> 'w"
  path_exists :: "string \<Rightarrow> 'w \<Rightarrow> bool"
  path_isdir :: "string \<Rightarrow> 'w \<Rightarrow> bool"
  listdir :: "string \<Rightarrow> 'w \<Rightarrow> string list"
  makedirs :: "string \<Rightarrow> 'w \<Rightarrow> bool \<times> 'w"
  proc_mounts :: "'w \<Rightarrow> string list"
  realpath :: "string \<Rightarrow> 'w \<Rightarrow> string"

text \<open>The four entries of \<^verbatim>\<open>CONFIG\<close> that \<^verbatim>\<open>SecureContainerApp.__init__\<close> reads.\<close>

record config =
  partition_device :: string
  container_dir :: string
  default_size :: string
  username :: string

text \<open>
  What an action does, in order. \<open>Run argv rc\<close> is a command run through
  \<^verbatim>\<open>subprocess\<close> that exited with status \<open>rc\<close>. The text of a dialog or log line is
  the source's text without the rendering of an exception or of a number (\<^verbatim>\<open>{e}\<close>,
  \<^verbatim>\<open>{available}\<close>): the failing command is the \<open>Run\<close> event before it. \<open>Stopped\<close> ends
  an action that the source ends with an uncaught exception: the exception leaves the
  method, and Tk's callback wrapper prints the traceback; no dialog is shown.
\<close>

datatype level = INFO | WARNING | ERROR

datatype stop = Uncaught py_error

datatype event =
    Run "string list" int
  | MakeDirs string bool
  | ReadProcMounts
  | ShowInfo string string
  | ShowWarning string string
  | ShowError string string
  | AskYesNo string string bool
  | AskString string
  | AskPassphrase string
  | AskChoice string "string list"
  | Log level string
  | Destroy
  | Stopped stop

type_synonym 'w state = "'w \<times> event list"

definition emit :: "event \<Rightarrow> 'w state \<Rightarrow> 'w state" where
  "emit e s = (fst s, snd s @ [e])"

text \<open>\<^verbatim>\<open>subprocess.run(argv, input=stdin)\<close>: the exit status and output, and the trace.\<close>

definition subprocess_run ::
  "'w os \<Rightarrow> string list \<Rightarrow> string option \<Rightarrow> 'w state \<Rightarrow> (int \<times> string) \<times> 'w state" where
  "subprocess_run sys argv inp s =
     (case exec sys argv inp (fst s) of
        ((rc, out), w') \<Rightarrow> ((rc, out), (w', snd s @ [Run argv rc])))"

text \<open>
  A \<^verbatim>\<open>try\<close> block of \<^verbatim>\<open>subprocess.run(..., check=True)\<close> calls, one after the other:
  the first command that exits with a non-zero status raises
  \<^verbatim>\<open>CalledProcessError\<close>, which leaves the block (\<open>False\<close>); \<open>True\<close> when all
  exited with 0.
\<close>

fun run_checked ::
  "'w os \<Rightarrow> (string list \<times> string option) list \<Rightarrow> 'w state \<Rightarrow> bool \<times> 'w state" where
  "run_checked sys [] s = (True, s)"
| "run_checked sys ((argv, inp) # cmds) s =
     (case subprocess_run sys argv inp s of
        ((rc, out), s') \<Rightarrow> if rc \<noteq> 0 then (False, s') else run_checked sys cmds s')"

subsection \<open>Helper methods of \<^verbatim>\<open>SecureContainerApp\<close>\<close>

text \<open>
  \<^verbatim>\<open>_detect_open_mappers\<close> (lines 400-406): the entries of \<^verbatim>\<open>/dev/mapper\<close> whose
  names end in \<^verbatim>\<open>_mapper\<close>.
\<close>

definition detect_open_mappers :: "'w os \<Rightarrow> 'w \<Rightarrow> string list" where
  "detect_open_mappers sys w =
     (if \<not> path_isdir sys ''/dev/mapper'' w then []
      else filter (\<lambda>m. endswith m ''_mapper'' \<and> m \<noteq> ''control'')
             (listdir sys ''/dev/mapper'' w))"

text \<open>\<^verbatim>\<open>_get_container_files\<close> (lines 516-520).\<close>

definition get_container_files :: "'w os \<Rightarrow> config \<Rightarrow> 'w \<Rightarrow> string list" where
  "get_container_files sys cfg w =
     (if \<not> path_isdir sys (container_dir cfg) w then []
      else sort (filter (\<lambda>f. endswith f ''.img'' \<or> endswith f ''.luks'')
                  (listdir sys (container_dir cfg) w)))"

text \<open>
  The loop over \<^verbatim>\<open>/proc/mounts\<close> in \<^verbatim>\<open>_verify_container_dir_on_partition\<close>: the
  second field of every line whose first field is the partition device.
\<close>

fun mountpoints_of :: "string \<Rightarrow> string list \<Rightarrow> string list" where
  "mountpoints_of part_dev [] = []"
| "mountpoints_of part_dev (line # rest) =
     (case split_ws line of
        dev # mntp # _ \<Rightarrow>
          if dev = part_dev then mntp # mountpoints_of part_dev rest
          else mountpoints_of part_dev rest
      | _ \<Rightarrow> mountpoints_of part_dev rest)"

text \<open>
  \<^verbatim>\<open>any(os.path.commonpath([mnt, real_cdir]) == mnt for mnt in mountpoints)\<close>: the
  generator is consumed in order, stops at the first hit, and an exception of
  \<^verbatim>\<open>commonpath\<close> met before a hit leaves \<^verbatim>\<open>any\<close>.
\<close>

fun any_commonpath :: "string list \<Rightarrow> string \<Rightarrow> py_error + bool" where
  "any_commonpath [] real_cdir = Inr False"
| "any_commonpath (mnt # rest) real_cdir =
     (case commonpath mnt real_cdir of
        Inl e \<Rightarrow> Inl e
      | Inr c \<Rightarrow> if c = mnt then Inr True else any_commonpath rest real_cdir)"

text \<open>
  \<^verbatim>\<open>_verify_container_dir_on_partition\<close> (lines 408-449). The result is \<open>Inr True\<close>
  or \<open>Inr False\<close> as the source returns them, and \<open>Inl ValueError\<close> when
  \<^verbatim>\<open>commonpath\<close> raises, which the source does not catch.
\<close>

definition verify_container_dir_on_partition ::
  "'w os \<Rightarrow> config \<Rightarrow> 'w state \<Rightarrow> (py_error + bool) \<times> 'w state" where
  "verify_container_dir_on_partition sys cfg s =
     (let cdir = container_dir cfg;
          part_dev = partition_device cfg
      in
      case (if \<not> path_exists sys cdir (fst s)
            then (case makedirs sys cdir (fst s) of
                    (ok, w') \<Rightarrow> (ok, (w', snd s @ [MakeDirs cdir ok])))
            else (True, s)) of
        (False, s1) \<Rightarrow>
          (Inr False, emit (ShowError ''Error'' ''Cannot create container directory:'') s1)
      | (True, s1) \<Rightarrow>
          let s2 = emit ReadProcMounts s1;
              mountpoints = mountpoints_of part_dev (proc_mounts sys (fst s2))
          in
          if mountpoints = []
          then (Inr False,
                emit (ShowError ''Error''
                        (part_dev @ '' is not mounted.'' @ nl @
                         ''Please mount it before using this app.'')) s2)
          else
            let real_cdir = realpath sys cdir (fst s2) in
            case any_commonpath mountpoints real_cdir of
              Inl e \<Rightarrow> (Inl e, s2)
            | Inr False \<Rightarrow>
                (Inr False,
                 emit (ShowError ''Error''
                         (''The container directory ('' @ cdir @ '') is not on '' @ part_dev @
                          ''.'' @ nl @ ''Aborting.'')) s2)
            | Inr True \<Rightarrow> (Inr True, s2))"

text \<open>
  \<^verbatim>\<open>_check_free_space\<close> (lines 522-545). \<^verbatim>\<open>check_output\<close> raises on a non-zero exit
  status and \<^verbatim>\<open>int\<close> raises on text that is no integer: both are caught by
  \<^verbatim>\<open>except Exception\<close>, which logs a warning and falls through to
  \<^verbatim>\<open>return True\<close>. The call of \<^verbatim>\<open>_parse_size_to_bytes\<close> stands before the
  \<^verbatim>\<open>try\<close>: an exception it raises leaves \<^verbatim>\<open>_check_free_space\<close> (\<open>Inl\<close>), with no
  command run and no dialog shown.
\<close>

definition df_argv :: "string \<Rightarrow> string list" where
  "df_argv directory = [''df'', ''--block-size=1'', directory]"

definition check_free_space ::
  "'w os \<Rightarrow> string \<Rightarrow> string \<Rightarrow> 'w state \<Rightarrow> (py_error + bool) \<times> 'w state" where
  "check_free_space sys directory size_str s =
     (case parse_size_to_bytes size_str of
        SizeRaises e \<Rightarrow> (Inl e, s)
      | SizeNone \<Rightarrow>
          (Inr False, emit (ShowError ''Error'' (''Invalid size format: '' @ size_str)) s)
      | SizeBytes size_bytes \<Rightarrow>
          (case subprocess_run sys (df_argv directory) None s of
             ((rc, df_out), s1) \<Rightarrow>
               if rc \<noteq> 0
               then (Inr True, emit (Log WARNING ''Could not parse free space:'') s1)
               else
                 let lines = split_on CHR 0x0A (py_strip df_out) in
                 if length lines < 2 then (Inr True, s1)
                 else
                   let cols = split_ws (lines ! 1) in
                   if length cols < 5 then (Inr True, s1)
                   else
                     (case py_int (cols ! 3) of
                        None \<Rightarrow>
                          (Inr True, emit (Log WARNING ''Could not parse free space:'') s1)
                      | Some available \<Rightarrow>
                          if size_bytes > available
                          then (Inr False,
                                emit (ShowError ''Error''
                                        (''Not enough free space.'' @ nl @
                                         ''Requested: '' @ size_str)) s1)
                          else (Inr True, s1))))"

text \<open>
  The dialogs. What the user answers is an argument of each action (a request); the
  dialog leaves an event in the trace. \<^verbatim>\<open>_ask_for_string\<close> strips the text it
  returns; \<open>None\<close> is Cancel.
\<close>

definition ask_for_string :: "string \<Rightarrow> string option \<Rightarrow> 'w state \<Rightarrow> string option \<times> 'w state" where
  "ask_for_string title answer s = (map_option py_strip answer, emit (AskString title) s)"

definition ask_passphrase :: "string \<Rightarrow> string option \<Rightarrow> 'w state \<Rightarrow> string option \<times> 'w state" where
  "ask_passphrase title answer s = (answer, emit (AskPassphrase title) s)"

definition ask_user_choice ::
  "string \<Rightarrow> string list \<Rightarrow> string option \<Rightarrow> 'w state \<Rightarrow> string option \<times> 'w state" where
  "ask_user_choice title options answer s = (answer, emit (AskChoice title options) s)"

definition askyesno :: "string \<Rightarrow> string \<Rightarrow> bool \<Rightarrow> 'w state \<Rightarrow> bool \<times> 'w state" where
  "askyesno title msg answer s = (answer, emit (AskYesNo title msg answer) s)"

text \<open>Python's truth value of an optional string: \<^verbatim>\<open>None\<close> and \<^verbatim>\<open>""\<close> are false.\<close>

definition truthy :: "string option \<Rightarrow> bool" where
  "truthy x = (case x of None \<Rightarrow> False | Some v \<Rightarrow> v \<noteq> [])"

subsection \<open>Create (lines 145-209)\<close>

record create_request =
  cr_name :: "string option"
  cr_size :: "string option"
  cr_passphrase :: "string option"
  cr_confirm :: bool

text \<open>
  The six commands of the \<^verbatim>\<open>try\<close> block, each with its standard input: truncate,
  luksFormat, open, mkfs.ext4, e2label, close.
\<close>

definition create_commands ::
  "string \<Rightarrow> string \<Rightarrow> string \<Rightarrow> string \<Rightarrow> (string list \<times> string option) list" where
  "create_commands name size_str container_path luks_pass =
     (let mapper_name = name @ ''_mapper'';
          dev_mapper = ''/dev/mapper/'' @ mapper_name
      in
      [([''truncate'', ''-s'', size_str, container_path], None),
       ([''cryptsetup'', ''-q'', ''luksFormat'', ''--type'', ''luks2'', container_path],
        Some (luks_pass @ nl)),
       ([''cryptsetup'', ''open'', container_path, mapper_name], Some (luks_pass @ nl)),
       ([''mkfs.ext4'', dev_mapper], None),
       ([''e2label'', dev_mapper, name], None),
       ([''cryptsetup'', ''close'', mapper_name], None)])"

definition create_try ::
  "'w os \<Rightarrow> string \<Rightarrow> string \<Rightarrow> string \<Rightarrow> string \<Rightarrow> 'w state \<Rightarrow> 'w state" where
  "create_try sys name size_str container_path luks_pass s =
     (case run_checked sys (create_commands name size_str container_path luks_pass) s of
        (True, s') \<Rightarrow>
          emit (Log INFO (''Created container '' @ container_path @ '', size='' @ size_str))
            (emit (ShowInfo ''Success'' (''Created container:'' @ nl @ container_path)) s')
      | (False, s') \<Rightarrow>
          emit (Log ERROR ''Failed to create container:'')
            (emit (ShowError ''Error'' ''Failed to create container:'') s'))"

text \<open>What \<^verbatim>\<open>create_container\<close> does once \<^verbatim>\<open>_check_free_space\<close> has returned true.\<close>

definition create_confirmed ::
  "'w os \<Rightarrow> create_request \<Rightarrow> string \<Rightarrow> string \<Rightarrow> string \<Rightarrow> string \<Rightarrow> 'w state \<Rightarrow> 'w state" where
  "create_confirmed sys req name size_str container_path luks_pass s =
     (case askyesno ''Confirm''
             (''Create new LUKS container:'' @ nl @ ''File: '' @ container_path @ nl @
              ''Size: '' @ size_str @ nl @ nl @ ''Proceed?'')
             (cr_confirm req) s of
        (confirm, s') \<Rightarrow>
          if \<not> confirm then s'
          else create_try sys name size_str container_path luks_pass s')"

definition create_container :: "'w os \<Rightarrow> config \<Rightarrow> create_request \<Rightarrow> 'w state \<Rightarrow> 'w state" where
  "create_container sys cfg req s =
     (case verify_container_dir_on_partition sys cfg s of
        (Inl e, s1) \<Rightarrow> emit (Stopped (Uncaught e)) s1
      | (Inr False, s1) \<Rightarrow> s1
      | (Inr True, s1) \<Rightarrow>
          (case ask_for_string ''Container Name'' (cr_name req) s1 of
             (None, s2) \<Rightarrow> s2
           | (Some name, s2) \<Rightarrow>
               if name = [] then s2
               else
                 (case ask_for_string ''Container Size'' (cr_size req) s2 of
                    (None, s3) \<Rightarrow> s3
                  | (Some size_str, s3) \<Rightarrow>
                      if size_str = [] then s3
                      else
                        (case ask_passphrase ''LUKS Passphrase'' (cr_passphrase req) s3 of
                           (None, s4) \<Rightarrow> s4
                         | (Some luks_pass, s4) \<Rightarrow>
                             if luks_pass = [] then s4
                             else
                               let container_path =
                                     path_join (container_dir cfg) (name @ ''.img'')
                               in
                               if path_exists sys container_path (fst s4)
                               then emit (ShowError ''Error''
                                            (''Container file already exists:'' @ nl @
                                             container_path)) s4
                               else
                                 (case check_free_space sys (container_dir cfg) size_str s4 of
                                    (Inl e, s5) \<Rightarrow> emit (Stopped (Uncaught e)) s5
                                  | (Inr False, s5) \<Rightarrow> s5
                                  | (Inr True, s5) \<Rightarrow>
                                      create_confirmed sys req name size_str container_path
                                        luks_pass s5)))))"

subsection \<open>List (lines 214-226)\<close>

definition list_containers :: "'w os \<Rightarrow> config \<Rightarrow> 'w state \<Rightarrow> 'w state" where
  "list_containers sys cfg s =
     (case verify_container_dir_on_partition sys cfg s of
        (Inl e, s1) \<Rightarrow> emit (Stopped (Uncaught e)) s1
      | (Inr False, s1) \<Rightarrow> s1
      | (Inr True, s1) \<Rightarrow>
          if \<not> path_isdir sys (container_dir cfg) (fst s1)
          then emit (ShowError ''Error''
                       (''Container directory not found:'' @ nl @ container_dir cfg)) s1
          else
            let containers = filter (\<lambda>f. endswith f ''.img'' \<or> endswith f ''.luks'')
                               (listdir sys (container_dir cfg) (fst s1))
            in
            if containers \<noteq> []
            then emit (ShowInfo ''Containers Found'' (join_with nl containers)) s1
            else emit (ShowInfo ''Containers Found'' ''No container files found.'') s1)"

subsection \<open>Mount (lines 231-311)\<close>

record mount_request =
  mr_choice :: "string option"
  mr_passphrase :: "string option"
  mr_confirm :: bool

text \<open>The \<^verbatim>\<open>except subprocess.CalledProcessError\<close> handler of \<^verbatim>\<open>mount_container\<close>.\<close>

definition mount_failed :: "'w state \<Rightarrow> 'w state" where
  "mount_failed s =
     emit (Log ERROR ''Mount failed:'') (emit (ShowError ''Error'' ''Mount failed:'') s)"

definition chown_argv :: "config \<Rightarrow> string \<Rightarrow> string list" where
  "chown_argv cfg mount_path =
     [''chown'', ''-R'', username cfg @ '':'' @ username cfg, mount_path]"

definition mount_argv :: "config \<Rightarrow> string \<Rightarrow> string list" where
  "mount_argv cfg dev_mapper =
     [''sudo'', ''-u'', username cfg, ''udisksctl'', ''mount'', ''-b'', dev_mapper]"

definition unmount_argv :: "config \<Rightarrow> string \<Rightarrow> string list" where
  "unmount_argv cfg dev_mapper =
     [''sudo'', ''-u'', username cfg, ''udisksctl'', ''unmount'', ''-b'', dev_mapper]"

definition open_argv :: "string \<Rightarrow> string \<Rightarrow> string list" where
  "open_argv container_path mapper_name = [''cryptsetup'', ''open'', container_path, mapper_name]"

definition close_argv :: "string \<Rightarrow> string list" where
  "close_argv mapper_name = [''cryptsetup'', ''close'', mapper_name]"

definition quote :: string where
  "quote = [CHR 0x27]"

text \<open>The \<^verbatim>\<open>else\<close> branch of line 302: the warning that no mount path was found.\<close>

definition mount_path_not_found :: "string \<Rightarrow> 'w state \<Rightarrow> 'w state" where
  "mount_path_not_found stdout s =
     emit (ShowWarning ''Mount Path Not Found''
             (''Mount likely succeeded, but couldn'' @ quote @ ''t parse path from:'' @ nl @
              stdout)) s"

text \<open>
  The \<^verbatim>\<open>try\<close> block of \<^verbatim>\<open>mount_container\<close> (lines 274-311): open, mount, parse the
  output, and \<^verbatim>\<open>chown\<close> when the parsed path is a directory. All three commands run
  with \<^verbatim>\<open>check=True\<close> inside the one \<^verbatim>\<open>try\<close>.
\<close>

definition mount_try ::
  "'w os \<Rightarrow> config \<Rightarrow> string \<Rightarrow> string \<Rightarrow> string \<Rightarrow> string \<Rightarrow> 'w state \<Rightarrow> 'w state" where
  "mount_try sys cfg cfile container_path mapper_name luks_pass s =
     (let dev_mapper = ''/dev/mapper/'' @ mapper_name in
      case subprocess_run sys (open_argv container_path mapper_name) (Some (luks_pass @ nl)) s of
        ((rc1, out1), s1) \<Rightarrow>
          if rc1 \<noteq> 0 then mount_failed s1
          else
            (case subprocess_run sys (mount_argv cfg dev_mapper) None s1 of
               ((rc2, out2), s2) \<Rightarrow>
                 if rc2 \<noteq> 0 then mount_failed s2
                 else
                   let stdout = py_strip out2;
                       s3 = emit (Log INFO (''udisksctl mount output: '' @ stdout)) s2
                   in
                   (case parse_mount_path stdout of
                      None \<Rightarrow> mount_path_not_found stdout s3
                    | Some mount_path \<Rightarrow>
                        if mount_path \<noteq> [] \<and> path_isdir sys mount_path (fst s3)
                        then
                          (case subprocess_run sys (chown_argv cfg mount_path) None s3 of
                             ((rc3, out3), s4) \<Rightarrow>
                               if rc3 \<noteq> 0 then mount_failed s4
                               else
                                 emit (Log INFO
                                         (''Mounted '' @ container_path @ '', chowned '' @
                                          mount_path @ '' to '' @ username cfg @ ''.''))
                                   (emit (ShowInfo ''Success''
                                            (''Mounted '' @ cfile @ '' at:'' @ nl @ mount_path @
                                             nl @ ''Chowned to '' @ username cfg @
                                             '' for R/W.'')) s4))
                        else mount_path_not_found stdout s3)))"

definition mount_container :: "'w os \<Rightarrow> config \<Rightarrow> mount_request \<Rightarrow> 'w state \<Rightarrow> 'w state" where
  "mount_container sys cfg req s =
     (case verify_container_dir_on_partition sys cfg s of
        (Inl e, s1) \<Rightarrow> emit (Stopped (Uncaught e)) s1
      | (Inr False, s1) \<Rightarrow> s1
      | (Inr True, s1) \<Rightarrow>
          let containers = get_container_files sys cfg (fst s1) in
          if containers = []
          then emit (ShowInfo ''No Containers'' ''No container files found to mount.'') s1
          else
            (case ask_user_choice ''Select Container to Mount'' containers (mr_choice req) s1 of
               (None, s2) \<Rightarrow> s2
             | (Some cfile, s2) \<Rightarrow>
                 if cfile = [] then s2
                 else
                   let base_name = fst (splitext cfile);
                       open_maps = detect_open_mappers sys (fst s2)
                   in
                   if base_name @ ''_mapper'' \<in> set open_maps
                   then emit (ShowWarning ''Already Open''
                                (''Container '' @ quote @ base_name @ quote @
                                 '' is already open. Unmount it first.'')) s2
                   else
                     (case ask_passphrase (''LUKS Passphrase for '' @ cfile)
                             (mr_passphrase req) s2 of
                        (None, s3) \<Rightarrow> s3
                      | (Some luks_pass, s3) \<Rightarrow>
                          if luks_pass = [] then s3
                          else
                            let container_path = path_join (container_dir cfg) cfile in
                            (case askyesno ''Confirm''
                                    (''Mount container:'' @ nl @ container_path @ nl @ nl @
                                     ''Proceed?'')
                                    (mr_confirm req) s3 of
                               (confirm, s4) \<Rightarrow>
                                 if \<not> confirm then s4
                                 else mount_try sys cfg cfile container_path
                                        (base_name @ ''_mapper'') luks_pass s4))))"

subsection \<open>Unmount (lines 316-349)\<close>

record unmount_request =
  ur_choice :: "string option"
  ur_confirm :: bool

definition unmount_container ::
  "'w os \<Rightarrow> config \<Rightarrow> unmount_request \<Rightarrow> 'w state \<Rightarrow> 'w state" where
  "unmount_container sys cfg req s =
     (let open_maps = detect_open_mappers sys (fst s) in
      if open_maps = []
      then emit (ShowInfo ''No Open Containers'' ''No container mappers are open.'') s
      else
        (case ask_user_choice ''Select Container to Unmount'' open_maps (ur_choice req) s of
           (None, s1) \<Rightarrow> s1
         | (Some mapper_choice, s1) \<Rightarrow>
             if mapper_choice = [] then s1
             else
               let dev_mapper = ''/dev/mapper/'' @ mapper_choice in
               (case askyesno ''Confirm Unmount''
                       (''Unmount & close:'' @ nl @ dev_mapper @ nl @ nl @ ''Proceed?'')
                       (ur_confirm req) s1 of
                  (confirm, s2) \<Rightarrow>
                    if \<not> confirm then s2
                    else
                      (case run_checked sys
                              [(unmount_argv cfg dev_mapper, None),
                               (close_argv mapper_choice, None)] s2 of
                         (True, s3) \<Rightarrow>
                           emit (Log INFO (''Unmounted & closed '' @ mapper_choice))
                             (emit (ShowInfo ''Success''
                                      (''Unmounted & closed '' @ mapper_choice)) s3)
                       | (False, s3) \<Rightarrow>
                           emit (Log ERROR ''Failed to unmount:'')
                             (emit (ShowError ''Error'' ''Failed to unmount:'') s3)))))"

subsection \<open>Cleanup at startup and at exit (lines 354-395)\<close>

text \<open>
  The \<^verbatim>\<open>for mapper in leftover\<close> loop, which the two cleanup paths share but for the text
  of the log line: both commands run with \<^verbatim>\<open>check=False\<close> and their results are
  dropped.
\<close>

fun cleanup_loop :: "'w os \<Rightarrow> config \<Rightarrow> string \<Rightarrow> string list \<Rightarrow> 'w state \<Rightarrow> 'w state" where
  "cleanup_loop sys cfg logtext [] s = s"
| "cleanup_loop sys cfg logtext (mapper # rest) s =
     (let dev_mapper = ''/dev/mapper/'' @ mapper in
      case subprocess_run sys (unmount_argv cfg dev_mapper) None s of
        (r1, s1) \<Rightarrow>
          (case subprocess_run sys (close_argv mapper) None s1 of
             (r2, s2) \<Rightarrow>
               cleanup_loop sys cfg logtext rest (emit (Log INFO (logtext @ mapper)) s2)))"

definition startup_cleanup_check :: "'w os \<Rightarrow> config \<Rightarrow> bool \<Rightarrow> 'w state \<Rightarrow> 'w state" where
  "startup_cleanup_check sys cfg answer s =
     (let leftover = detect_open_mappers sys (fst s) in
      if leftover = [] then s
      else
        (case askyesno ''Startup Cleanup''
                (''Found leftover open containers:'' @ nl @ nl @ join_with nl leftover @
                 nl @ nl @ ''Close them now?'')
                answer s of
           (do_cleanup, s1) \<Rightarrow>
             if \<not> do_cleanup then s1
             else cleanup_loop sys cfg ''Closed leftover mapper '' leftover s1))"

definition on_exit :: "'w os \<Rightarrow> config \<Rightarrow> bool \<Rightarrow> 'w state \<Rightarrow> 'w state" where
  "on_exit sys cfg answer s =
     (let leftover = detect_open_mappers sys (fst s);
          s' =
            (if leftover \<noteq> []
             then
               (case askyesno ''Clean Exit''
                       (''Still-open containers:'' @ nl @ nl @ join_with nl leftover @
                        nl @ nl @ ''Unmount + close them now?'')
                       answer s of
                  (do_cleanup, s1) \<Rightarrow>
                    if do_cleanup
                    then cleanup_loop sys cfg ''Auto-closed leftover mapper '' leftover s1
                    else s1)
             else s)
      in emit Destroy (emit (Log INFO ''Exiting application (V5).'') s'))"

subsection \<open>What a trace shows\<close>

text \<open>The commands of a trace, each with its exit status, in the order they ran.\<close>

fun runs :: "event list \<Rightarrow> (string list \<times> int) list" where
  "runs [] = []"
| "runs (Run argv rc # es) = (argv, rc) # runs es"
| "runs (e # es) = runs es"

text \<open>The events that tell the user or the log of a failure.\<close>

fun is_failure_report :: "event \<Rightarrow> bool" where
  "is_failure_report (ShowError title msg) = True"
| "is_failure_report (ShowWarning title msg) = True"
| "is_failure_report (Log lvl msg) = (lvl \<noteq> INFO)"
| "is_failure_report e = False"

text \<open>The message boxes and the log lines of a trace.\<close>

fun is_report :: "event \<Rightarrow> bool" where
  "is_report (ShowInfo title msg) = True"
| "is_report (ShowWarning title msg) = True"
| "is_report (ShowError title msg) = True"
| "is_report (Log lvl msg) = True"
| "is_report e = False"

text \<open>
  The commands of \<^verbatim>\<open>create_container\<close> that belong to the creation sequence: all but
  the free-space query.
\<close>

definition create_steps :: "config \<Rightarrow> event list \<Rightarrow> (string list \<times> int) list" where
  "create_steps cfg tr = filter (\<lambda>r. fst r \<noteq> df_argv (container_dir cfg)) (runs tr)"

text \<open>
  The command lines of the creation sequence for the text typed into the name and size
  dialogs and the passphrase.
\<close>

definition create_argvs :: "config \<Rightarrow> string \<Rightarrow> string \<Rightarrow> string \<Rightarrow> string list list" where
  "create_argvs cfg name_text size_text luks_pass =
     map fst (create_commands (py_strip name_text) (py_strip size_text)
                (path_join (container_dir cfg) (py_strip name_text @ ''.img'')) luks_pass)"

text \<open>What a sweep over \<open>leftover\<close> runs when nothing is skipped: unmount, then close, for
  each mapper in order.\<close>

definition sweep_commands :: "config \<Rightarrow> string list \<Rightarrow> string list list" where
  "sweep_commands cfg leftover =
     concat (map (\<lambda>mapper. [unmount_argv cfg (''/dev/mapper/'' @ mapper), close_argv mapper])
               leftover)"

text \<open>
  Command lines run one after the other without standard input, each on the world that
  the one before has left and whatever its exit status was: the commands with their
  exit statuses, and the world after the last one.
\<close>

fun exec_all :: "'w os \<Rightarrow> string list list \<Rightarrow> 'w \<Rightarrow> (string list \<times> int) list \<times> 'w" where
  "exec_all sys [] w = ([], w)"
| "exec_all sys (argv # rest) w =
     (case exec sys argv None w of
        ((rc, out), w') \<Rightarrow>
          (case exec_all sys rest w' of
             (rs, w'') \<Rightarrow> ((argv, rc) # rs, w'')))"

text \<open>
  The free-space query gives nothing to compare with: \<^verbatim>\<open>df\<close> exits with a non-zero
  status (\<^verbatim>\<open>check_output\<close> raises), or its output has fewer than two lines, or the
  second line has fewer than five columns.
\<close>

definition df_lines :: "'w os \<Rightarrow> string \<Rightarrow> 'w \<Rightarrow> string list" where
  "df_lines sys directory w =
     split_on CHR 0x0A (py_strip (snd (fst (exec sys (df_argv directory) None w))))"

definition df_unusable :: "'w os \<Rightarrow> string \<Rightarrow> 'w \<Rightarrow> bool" where
  "df_unusable sys directory w \<longleftrightarrow>
     fst (fst (exec sys (df_argv directory) None w)) \<noteq> 0 \<or>
     length (df_lines sys directory w) < 2 \<or>
     length (split_ws (df_lines sys directory w ! 1)) < 5"

text \<open>
  The state the program can observe: the open mappers as \<^verbatim>\<open>_detect_open_mappers\<close>
  lists them, and the (device, mount point) pairs of \<^verbatim>\<open>/proc/mounts\<close>, read the way
  \<^verbatim>\<open>_verify_container_dir_on_partition\<close> reads them.
\<close>

fun mount_records :: "string list \<Rightarrow> (string \<times> string) list" where
  "mount_records [] = []"
| "mount_records (line # rest) =
     (case split_ws line of
        dev # mntp # _ \<Rightarrow> (dev, mntp) # mount_records rest
      | _ \<Rightarrow> mount_records rest)"

definition observed :: "'w os \<Rightarrow> 'w \<Rightarrow> string set \<times> (string \<times> string) set" where
  "observed sys w = (set (detect_open_mappers sys w), set (mount_records (proc_mounts sys w)))"

text \<open>
  What the round trip of mount and unmount needs of the external tools, stated on the
  observed state and only for commands that exit with status 0:
  \<^item> \<^verbatim>\<open>cryptsetup open\<close> adds the mapper it names and touches no mount record;
  \<^item> \<^verbatim>\<open>udisksctl mount -b d\<close> leaves the mappers and the records of other devices;
  \<^item> \<^verbatim>\<open>udisksctl unmount -b d\<close> leaves the mappers and removes the records of \<open>d\<close>,
    and only them;
  \<^item> \<^verbatim>\<open>cryptsetup close\<close> removes the mapper it names and touches no mount record;
  \<^item> \<^verbatim>\<open>chown\<close> changes nothing that is observed, whatever its exit status.
\<close>

definition tools_follow_lifecycle :: "'w os \<Rightarrow> bool" where
  "tools_follow_lifecycle sys \<longleftrightarrow>
     (\<forall>cp m inp w out w'.
        exec sys (open_argv cp m) inp w = ((0, out), w') \<and> endswith m ''_mapper'' \<longrightarrow>
        observed sys w' = (insert m (fst (observed sys w)), snd (observed sys w))) \<and>
     (\<forall>cfg d w out w'.
        exec sys (mount_argv cfg d) None w = ((0, out), w') \<longrightarrow>
        fst (observed sys w') = fst (observed sys w) \<and>
        {r \<in> snd (observed sys w'). fst r \<noteq> d} = {r \<in> snd (observed sys w). fst r \<noteq> d}) \<and>
     (\<forall>cfg d w out w'.
        exec sys (unmount_argv cfg d) None w = ((0, out), w') \<longrightarrow>
        fst (observed sys w') = fst (observed sys w) \<and>
        snd (observed sys w') = {r \<in> snd (observed sys w). fst r \<noteq> d}) \<and>
     (\<forall>m w out w'.
        exec sys (close_argv m) None w = ((0, out), w') \<longrightarrow>
        observed sys w' = (fst (observed sys w) - {m}, snd (observed sys w))) \<and>
     (\<forall>cfg p w. observed sys (snd (exec sys (chown_argv cfg p) None w)) = observed sys w)"

subsection \<open>A simulated system\<close>

text \<open>
  One instance of \<open>'w os\<close>, to run the actions on concrete inputs. It keeps the
  directories that exist, the files of the container directory, the entries of
  \<^verbatim>\<open>/dev/mapper\<close>, the lines of the mount table, the output of \<^verbatim>\<open>df\<close>, and a list of
  command lines that are made to fail. \<^verbatim>\<open>cryptsetup open\<close> adds a mapper unless the
  name is taken, \<^verbatim>\<open>cryptsetup close\<close> removes one unless it is absent or mounted,
  \<^verbatim>\<open>udisksctl mount\<close> mounts an open mapper under \<^verbatim>\<open>/run/media/<user>/\<close> and prints
  the line the source parses, \<^verbatim>\<open>udisksctl unmount\<close> removes the mount,
  \<^verbatim>\<open>truncate\<close> creates the file; every other command succeeds and changes nothing.
\<close>

record sim =
  sim_dirs :: "string list"
  sim_cdir :: string
  sim_cfiles :: "string list"
  sim_mappers :: "string list"
  sim_mtab :: "string list"
  sim_df :: string
  sim_failing :: "string list list"
  sim_readonly :: bool

definition mtab_device :: "string \<Rightarrow> string option" where
  "mtab_device line = (case split_ws line of dev # mntp # _ \<Rightarrow> Some dev | _ \<Rightarrow> None)"

definition mtab_line :: "string \<Rightarrow> string \<Rightarrow> string" where
  "mtab_line dev mntp = dev @ '' '' @ mntp @ '' ext4 rw,relatime 0 0''"

definition sim_mount_point :: "string \<Rightarrow> string \<Rightarrow> string" where
  "sim_mount_point user dev =
     ''/run/media/'' @ user @ ''/'' @ take (length dev - 19) (drop 12 dev)"

definition sim_exec :: "string list \<Rightarrow> string option \<Rightarrow> sim \<Rightarrow> (int \<times> string) \<times> sim" where
  "sim_exec argv inp w =
     (if argv \<in> set (sim_failing w) then ((1, []), w)
      else if length argv = 4 \<and> take 2 argv = [''cryptsetup'', ''open'']
      then (if argv ! 3 \<in> set (sim_mappers w) then ((5, []), w)
            else ((0, []), w\<lparr>sim_mappers := sim_mappers w @ [argv ! 3]\<rparr>))
      else if length argv = 3 \<and> take 2 argv = [''cryptsetup'', ''close'']
      then (if argv ! 2 \<in> set (sim_mappers w) \<and>
               Some (''/dev/mapper/'' @ argv ! 2) \<notin> set (map mtab_device (sim_mtab w))
            then ((0, []), w\<lparr>sim_mappers := removeAll (argv ! 2) (sim_mappers w)\<rparr>)
            else ((5, []), w))
      else if length argv = 7 \<and> take 2 argv = [''sudo'', ''-u''] \<and>
              drop 3 (take 6 argv) = [''udisksctl'', ''mount'', ''-b'']
      then (let dev = argv ! 6; mntp = sim_mount_point (argv ! 2) dev in
            if dev \<in> set (map (\<lambda>m. ''/dev/mapper/'' @ m) (sim_mappers w)) \<and>
               Some dev \<notin> set (map mtab_device (sim_mtab w)) \<and>
               mount_records [mtab_line dev mntp] = [(dev, mntp)]
            then ((0, ''Mounted '' @ dev @ '' at '' @ mntp @ ''.'' @ nl),
                  w\<lparr>sim_mtab := sim_mtab w @ [mtab_line dev mntp],
                    sim_dirs := sim_dirs w @ [mntp]\<rparr>)
            else ((1, []), w))
      else if length argv = 7 \<and> take 2 argv = [''sudo'', ''-u''] \<and>
              drop 3 (take 6 argv) = [''udisksctl'', ''unmount'', ''-b'']
      then (let dev = argv ! 6 in
            if Some dev \<in> set (map mtab_device (sim_mtab w))
            then ((0, ''Unmounted '' @ dev @ ''.'' @ nl),
                  w\<lparr>sim_mtab := filter (\<lambda>l. mtab_device l \<noteq> Some dev) (sim_mtab w),
                    sim_dirs :=
                      filter (\<lambda>p. p \<notin> set (map snd (filter (\<lambda>r. fst r = dev)
                                                          (mount_records (sim_mtab w)))))
                        (sim_dirs w)\<rparr>)
            else ((1, []), w))
      else if length argv = 4 \<and> take 2 argv = [''truncate'', ''-s'']
      then (if startswith (argv ! 3) (sim_cdir w @ ''/'')
            then ((0, []),
                  w\<lparr>sim_cfiles := sim_cfiles w @ [drop (Suc (length (sim_cdir w))) (argv ! 3)]\<rparr>)
            else ((0, []), w))
      else if length argv = 3 \<and> take 2 argv = [''df'', ''--block-size=1'']
      then ((0, sim_df w), w)
      else ((0, []), w))"

definition sim_os :: "sim os" where
  "sim_os =
     \<lparr>exec = sim_exec,
      path_exists = (\<lambda>p w. p = ''/dev/mapper'' \<or> p \<in> set (sim_dirs w) \<or>
                            p \<in> set (map (path_join (sim_cdir w)) (sim_cfiles w))),
      path_isdir = (\<lambda>p w. p = ''/dev/mapper'' \<or> p \<in> set (sim_dirs w)),
      listdir = (\<lambda>d w. if d = ''/dev/mapper'' then ''control'' # sim_mappers w
                        else if d = sim_cdir w then sim_cfiles w
                        else []),
      makedirs = (\<lambda>p w. if sim_readonly w then (False, w)
                         else (True, w\<lparr>sim_dirs := sim_dirs w @ [p]\<rparr>)),
      proc_mounts = (\<lambda>w. sim_mtab w),
      realpath = (\<lambda>p w. p)\<rparr>"

text \<open>
  A machine with the data partition \<^verbatim>\<open>/dev/sdb1\<close> mounted at \<^verbatim>\<open>/mnt/data\<close>, the
  container directory on it, and no mapper open.
\<close>

definition cfg0 :: config where
  "cfg0 = \<lparr>partition_device = ''/dev/sdb1'', container_dir = ''/mnt/data/c'',
           default_size = ''1G'', username = ''alice''\<rparr>"

definition world0 :: sim where
  "world0 =
     \<lparr>sim_dirs = [''/mnt/data'', ''/mnt/data/c''],
      sim_cdir = ''/mnt/data/c'',
      sim_cfiles = [],
      sim_mappers = [],
      sim_mtab = [''/dev/sdb1 /mnt/data ext4 rw,relatime 0 0''],
      sim_df = [],
      sim_failing = [],
      sim_readonly = False\<rparr>"

subsection \<open>Concrete inputs\<close>

text \<open>The container \<^verbatim>\<open>vault.img\<close>: closed, open, and open and mounted.\<close>

definition world_vault :: sim where
  "world_vault = world0\<lparr>sim_cfiles := [''vault.img'']\<rparr>"

definition world_vault_open :: sim where
  "world_vault_open = world0\<lparr>sim_cfiles := [''vault.img''], sim_mappers := [''vault_mapper'']\<rparr>"

definition world_vault_mounted :: sim where
  "world_vault_mounted =
     world0\<lparr>sim_dirs := [''/mnt/data'', ''/mnt/data/c'', ''/run/media/alice/vault''],
            sim_cfiles := [''vault.img''],
            sim_mappers := [''vault_mapper''],
            sim_mtab := [''/dev/sdb1 /mnt/data ext4 rw,relatime 0 0'',
                         ''/dev/mapper/vault_mapper /run/media/alice/vault ext4 rw,relatime 0 0'']\<rparr>"

text \<open>The answers of a user who mounts it, who unmounts it, and who creates it.\<close>

definition mount_vault :: mount_request where
  "mount_vault = \<lparr>mr_choice = Some ''vault.img'', mr_passphrase = Some ''pw'', mr_confirm = True\<rparr>"

definition unmount_vault :: unmount_request where
  "unmount_vault = \<lparr>ur_choice = Some ''vault_mapper'', ur_confirm = True\<rparr>"

definition create_vault :: create_request where
  "create_vault = \<lparr>cr_name = Some ''vault'', cr_size = Some ''100M'', cr_passphrase = Some ''pw'',
                   cr_confirm = True\<rparr>"

text \<open>Two mappers left open by an earlier run, neither of them mounted.\<close>

definition world_ab :: sim where
  "world_ab = world0\<lparr>sim_mappers := [''a_mapper'', ''b_mapper'']\<rparr>"

text \<open>Systems on which one command fails: \<^verbatim>\<open>mkfs.ext4\<close>, \<^verbatim>\<open>chown\<close>, \<^verbatim>\<open>df\<close>.\<close>

definition world_mkfs_fails :: sim where
  "world_mkfs_fails = world0\<lparr>sim_failing := [[''mkfs.ext4'', ''/dev/mapper/vault_mapper'']]\<rparr>"

definition world_chown_fails :: sim where
  "world_chown_fails =
     world0\<lparr>sim_cfiles := [''vault.img''],
            sim_failing := [[''chown'', ''-R'', ''alice:alice'', ''/run/media/alice/vault'']]\<rparr>"

definition world_df_fails :: sim where
  "world_df_fails = world0\<lparr>sim_failing := [[''df'', ''--block-size=1'', ''/mnt/data/c'']]\<rparr>"

text \<open>A system with 100 bytes of free space on the data partition.\<close>

definition world_df_small :: sim where
  "world_df_small =
     world0\<lparr>sim_df := ''Filesystem 1B-blocks Used Available Use% Mounted on'' @ nl @
                       ''/dev/sdb1 1000 900 100 90% /mnt/data'' @ nl\<rparr>"

text \<open>A system on which the container directory does not exist yet.\<close>

definition world_no_cdir :: sim where
  "world_no_cdir = world0\<lparr>sim_dirs := [''/mnt/data'']\<rparr>"

text \<open>A system on which the data partition is not mounted.\<close>

definition world_not_mounted :: sim where
  "world_not_mounted = world0\<lparr>sim_mtab := [''/dev/sda1 / ext4 rw,relatime 0 0'']\<rparr>"

text \<open>
  A data partition mounted at \<^verbatim>\<open>/media/alice/My Passport\<close>, with the container
  directory \<^verbatim>\<open>c\<close> on it. In \<^verbatim>\<open>/proc/mounts\<close> the fields of a line are separated by
  spaces, so the kernel writes a space, a tab, a line feed and a backslash inside a
  field as a backslash and three octal digits (\<^verbatim>\<open>040\<close>, \<^verbatim>\<open>011\<close>, \<^verbatim>\<open>012\<close>,
  \<^verbatim>\<open>134\<close>): \<open>mtab_unescape\<close> reads a field back. This is the file format (proc(5),
  fstab(5)), not a function of the source, which compares the field as it is written.
\<close>

definition backslash :: string where
  "backslash = [CHR 0x5C]"

definition mtab_escapes :: "(string \<times> char) list" where
  "mtab_escapes =
     [(''040'', CHR 0x20), (''011'', CHR 0x09), (''012'', CHR 0x0A), (''134'', CHR 0x5C)]"

fun mtab_unescape :: "string \<Rightarrow> string" where
  "mtab_unescape [] = []"
| "mtab_unescape (c # cs) =
     (if c = CHR 0x5C
      then (case map_of mtab_escapes (take 3 cs) of
              Some d \<Rightarrow> d # mtab_unescape (drop 3 cs)
            | None \<Rightarrow> c # mtab_unescape cs)
      else c # mtab_unescape cs)"

definition cfg_spaced :: config where
  "cfg_spaced = \<lparr>partition_device = ''/dev/sdb1'',
                  container_dir = ''/media/alice/My Passport/c'',
                  default_size = ''1G'', username = ''alice''\<rparr>"

definition world_spaced :: sim where
  "world_spaced =
     \<lparr>sim_dirs = [''/media/alice/My Passport'', ''/media/alice/My Passport/c''],
      sim_cdir = ''/media/alice/My Passport/c'',
      sim_cfiles = [],
      sim_mappers = [],
      sim_mtab = [''/dev/sdb1 /media/alice/My'' @ backslash @
                  ''040Passport ext4 rw,relatime 0 0''],
      sim_df = [],
      sim_failing = [],
      sim_readonly = False\<rparr>"

section \<open>Properties\<close>

subsection \<open>Evaluation and trace lemmas\<close>

lemmas str_defs = is_ascii_def py_strip_def is_space_def py_upper_def upper_char_def endswith_def
  is_digit_def dec_value_def digit_val_def startswith_def nl_def quote_def
  split_ws_def split_on_def path_join_def path_components_def commonpath_def splitext_def rfind_def

lemmas float_defs = parse_size_to_bytes_def py_float_def parse_literal_def parse_unsigned_def
  parse_exponent_def to_ascii_def c_strip_def c_isspace_def round_double_def floor_log2_def
  round_half_even_def float_times_int_def int_of_float_def bitlen.simps Let_def

lemmas sim_defs = sim_os_def sim_exec_def sim_mount_point_def cfg0_def world0_def

lemma runs_append [simp]: "runs (xs @ ys) = runs xs @ runs ys"
  by (induction xs rule: runs.induct) simp_all

lemma fst_emit [simp]: "fst (emit e s) = fst s"
  by (simp add: emit_def)

lemma snd_emit [simp]: "snd (emit e s) = snd s @ [e]"
  by (simp add: emit_def)

lemma emit_pair [simp]: "emit e (w, tr) = (w, tr @ [e])"
  by (simp add: emit_def)

lemma subprocess_run_eq:
  "subprocess_run sys argv inp s =
     (fst (exec sys argv inp (fst s)),
      (snd (exec sys argv inp (fst s)), snd s @ [Run argv (fst (fst (exec sys argv inp (fst s))))]))"
  by (simp add: subprocess_run_def split: prod.splits)

lemma runs_verify [simp]:
  "runs (snd (snd (verify_container_dir_on_partition sys cfg s))) = runs (snd s)"
  by (simp add: verify_container_dir_on_partition_def Let_def
           split: prod.splits bool.splits sum.splits)

subsection \<open>Size parsing\<close>

lemma parse_size_100M: "parse_size_to_bytes ''100M'' = SizeBytes 104857600"
  by (simp add: float_defs str_defs)

lemma parse_size_abc: "parse_size_to_bytes ''abc'' = SizeNone"
  by (simp add: float_defs str_defs)

lemma parse_size_nan: "parse_size_to_bytes ''nan'' = SizeRaises ValueError"
  by (simp add: float_defs str_defs)

lemma parse_size_inf: "parse_size_to_bytes ''inf'' = SizeRaises OverflowError"
  by (simp add: float_defs str_defs)

lemma create_vault_nan:
  "create_container sim_os cfg0 (create_vault\<lparr>cr_size := Some ''nan''\<rparr>) (world0, []) =
     (world0,
      [ReadProcMounts, AskString ''Container Name'', AskString ''Container Size'',
       AskPassphrase ''LUKS Passphrase'', Stopped (Uncaught ValueError)])"
proof -
  have st: "py_strip ''nan'' = ''nan''" "py_strip ''vault'' = ''vault''"
    by (simp_all add: str_defs)
  have v: "verify_container_dir_on_partition sim_os cfg0 (world0, []) =
             (Inr True, (world0, [ReadProcMounts]))"
    by (simp add: verify_container_dir_on_partition_def sim_defs str_defs Let_def)
  have ne: "\<not> path_exists sim_os (path_join (container_dir cfg0) ''vault.img'') world0"
    by (simp add: sim_defs str_defs)
  show ?thesis
    using ne
    by (simp add: create_container_def create_vault_def ask_for_string_def ask_passphrase_def
          check_free_space_def parse_size_nan st v Let_def)
qed

text \<open>
  C8. \<^verbatim>\<open>_parse_size_to_bytes\<close> maps \<^verbatim>\<open>"500M"\<close> to 524288000 and \<^verbatim>\<open>"2G"\<close> to
  2147483648; for \<^verbatim>\<open>"abc"\<close> it returns \<^verbatim>\<open>None\<close>, and \<^verbatim>\<open>_check_free_space\<close> then
  shows the invalid-size error and returns false, without running any command. So do
  \<^verbatim>\<open>"500MB"\<close> and the empty text that is left of \<^verbatim>\<open>"G"\<close>, and a fraction is accepted
  (\<^verbatim>\<open>"1.5G"\<close>). But \<^verbatim>\<open>float\<close> also accepts \<^verbatim>\<open>"nan"\<close> and \<^verbatim>\<open>"inf"\<close>, which have no
  numeric value: for them \<^verbatim>\<open>int(val * mult)\<close>, which stands after the \<^verbatim>\<open>try\<close>, raises
  \<^verbatim>\<open>ValueError\<close> and \<^verbatim>\<open>OverflowError\<close>. \<^verbatim>\<open>_check_free_space\<close> does not catch them, and
  \<^verbatim>\<open>create_container\<close> ends with the exception, with no invalid-size error shown.
\<close>

theorem parse_size_to_bytes_examples:
  "parse_size_to_bytes ''500M'' = SizeBytes 524288000 \<and>
   parse_size_to_bytes ''2G'' = SizeBytes 2147483648 \<and>
   parse_size_to_bytes ''abc'' = SizeNone \<and>
   check_free_space sys directory ''abc'' s =
     (Inr False, emit (ShowError ''Error'' ''Invalid size format: abc'') s) \<and>
   parse_size_to_bytes ''500MB'' = SizeNone \<and>
   parse_size_to_bytes ''G'' = SizeNone \<and>
   parse_size_to_bytes ''1.5G'' = SizeBytes 1610612736 \<and>
   parse_size_to_bytes ''nan'' = SizeRaises ValueError \<and>
   parse_size_to_bytes ''inf'' = SizeRaises OverflowError \<and>
   check_free_space sys directory ''nan'' s = (Inl ValueError, s) \<and>
   check_free_space sys directory ''inf'' s = (Inl OverflowError, s) \<and>
   create_container sim_os cfg0 (create_vault\<lparr>cr_size := Some ''nan''\<rparr>) (world0, []) =
     (world0,
      [ReadProcMounts, AskString ''Container Name'', AskString ''Container Size'',
       AskPassphrase ''LUKS Passphrase'', Stopped (Uncaught ValueError)])"
proof -
  have a: "parse_size_to_bytes ''500M'' = SizeBytes 524288000"
    by (simp add: float_defs str_defs)
  have b: "parse_size_to_bytes ''2G'' = SizeBytes 2147483648"
    by (simp add: float_defs str_defs)
  have c: "check_free_space sys directory ''abc'' s =
     (Inr False, emit (ShowError ''Error'' ''Invalid size format: abc'') s)"
    by (simp add: check_free_space_def parse_size_abc)
  have d: "parse_size_to_bytes ''500MB'' = SizeNone"
    by (simp add: float_defs str_defs)
  have e: "parse_size_to_bytes ''G'' = SizeNone"
    by (simp add: float_defs str_defs)
  have f: "parse_size_to_bytes ''1.5G'' = SizeBytes 1610612736"
    by (simp add: float_defs str_defs)
  have g: "check_free_space sys directory ''nan'' s = (Inl ValueError, s)"
    by (simp add: check_free_space_def parse_size_nan)
  have h: "check_free_space sys directory ''inf'' s = (Inl OverflowError, s)"
    by (simp add: check_free_space_def parse_size_inf)
  from a b c d e f g h parse_size_abc parse_size_nan parse_size_inf create_vault_nan
  show ?thesis by simp
qed

subsection \<open>The mount-path parser\<close>

lemma after_first_None_parse:
  "after_first '' at '' stdout = None \<Longrightarrow> parse_mount_path stdout = None"
  by (simp add: parse_mount_path_def)

lemma parse_mount_path_no_period:
  "parse_mount_path stdout = Some p \<Longrightarrow> CHR ''.'' \<notin> set p"
proof -
  have strip_sub: "set (py_strip t) \<subseteq> set t" for t
  proof -
    have "set (dropWhile is_space (rev (dropWhile is_space t))) \<subseteq> set (rev (dropWhile is_space t))"
      by (rule set_dropWhileD [THEN subsetI])
    also have "\<dots> \<subseteq> set t"
      using set_dropWhileD [of _ is_space t] by auto
    finally show ?thesis by (simp add: py_strip_def)
  qed
  assume "parse_mount_path stdout = Some p"
  then obtain a where "p = py_strip (filter (\<lambda>c. c \<noteq> CHR ''.'') a)"
    by (auto simp: parse_mount_path_def split: option.splits)
  with strip_sub [of "filter (\<lambda>c. c \<noteq> CHR ''.'') a"] show ?thesis by auto
qed

text \<open>
  C6. The parser takes the text after the first \<^verbatim>\<open>" at "\<close> and yields \<^verbatim>\<open>None\<close> when
  there is none; on the documented line it yields \<^verbatim>\<open>/run/media/alice/foo\<close>. It does not
  strip a trailing period, though: it deletes every period, so for a mount path that
  holds one (\<^verbatim>\<open>/run/media/alice/v1.0\<close>) it yields a different path
  (\<^verbatim>\<open>/run/media/alice/v10\<close>).
\<close>

theorem parse_mount_path_deletes_every_period:
  "parse_mount_path ''Mounted /dev/mapper/foo_mapper at /run/media/alice/foo.'' =
     Some ''/run/media/alice/foo'' \<and>
   parse_mount_path ''Mounted nothing'' = None \<and>
   parse_mount_path ''Mounted /dev/mapper/v1.0_mapper at /run/media/alice/v1.0.'' =
     Some ''/run/media/alice/v10''"
  by (simp add: parse_mount_path_def str_defs)

subsection \<open>Opening a container that is already open\<close>

lemma open_in_mount_try:
  assumes "(open_argv p m, rc) \<in> set (runs (snd (mount_try sys cfg cfile path mapper pw s)))"
  shows "(open_argv p m, rc) \<in> set (runs (snd s)) \<or> m = mapper"
  using assms
  by (auto simp: mount_try_def mount_failed_def mount_path_not_found_def Let_def subprocess_run_eq
        open_argv_def mount_argv_def chown_argv_def
      split: prod.splits option.splits if_splits)

text \<open>
  C1. When the mapper name of the chosen container is among the open mappers that
  \<^verbatim>\<open>_detect_open_mappers\<close> reports, \<^verbatim>\<open>mount_container\<close> runs no command and leaves the
  world as the placement check left it; and every \<^verbatim>\<open>cryptsetup open\<close> that
  \<^verbatim>\<open>mount_container\<close> does run names a mapper that was not among the open ones. So the
  action never opens a second handle of a name it sees open.
\<close>

theorem mount_container_refuses_open_mapper:
  "(mr_choice req = Some cfile \<and>
    fst (splitext cfile) @ ''_mapper'' \<in>
      set (detect_open_mappers sys (fst (snd (verify_container_dir_on_partition sys cfg (w, [])))))
    \<longrightarrow> runs (snd (mount_container sys cfg req (w, []))) = [] \<and>
        fst (mount_container sys cfg req (w, [])) =
          fst (snd (verify_container_dir_on_partition sys cfg (w, [])))) \<and>
   (\<forall>p m rc. (open_argv p m, rc) \<in> set (runs (snd (mount_container sys cfg req (w, [])))) \<longrightarrow>
      m \<notin> set (detect_open_mappers sys
                 (fst (snd (verify_container_dir_on_partition sys cfg (w, []))))))"
proof (intro conjI impI allI)
  obtain r s1 where v: "verify_container_dir_on_partition sys cfg (w, []) = (r, s1)"
    by (cases "verify_container_dir_on_partition sys cfg (w, [])")
  have r0: "runs (snd s1) = []"
    using runs_verify [of sys cfg "(w, [])"] v by simp
  {
    assume a: "mr_choice req = Some cfile \<and>
      fst (splitext cfile) @ ''_mapper'' \<in>
        set (detect_open_mappers sys
               (fst (snd (verify_container_dir_on_partition sys cfg (w, [])))))"
    show "runs (snd (mount_container sys cfg req (w, []))) = []"
      using a v r0
      by (simp add: mount_container_def Let_def ask_user_choice_def
               split: sum.splits bool.splits)
    show "fst (mount_container sys cfg req (w, [])) =
          fst (snd (verify_container_dir_on_partition sys cfg (w, [])))"
      using a v
      by (simp add: mount_container_def Let_def ask_user_choice_def
               split: sum.splits bool.splits)
  }
  fix p m rc
  assume b: "(open_argv p m, rc) \<in> set (runs (snd (mount_container sys cfg req (w, []))))"
  show "m \<notin> set (detect_open_mappers sys
                   (fst (snd (verify_container_dir_on_partition sys cfg (w, [])))))"
  proof
    assume c: "m \<in> set (detect_open_mappers sys
                          (fst (snd (verify_container_dir_on_partition sys cfg (w, [])))))"
    from b v r0 c show False
      by (auto simp: mount_container_def Let_def ask_user_choice_def ask_passphrase_def
            askyesno_def
            split: sum.splits bool.splits option.splits if_splits
            dest!: open_in_mount_try)
  qed
qed

lemma verify_vault_open:
  "verify_container_dir_on_partition sim_os cfg0 (world_vault_open, []) =
     (Inr True, (world_vault_open, [ReadProcMounts]))"
  by (simp add: verify_container_dir_on_partition_def Let_def world_vault_open_def sim_defs
        str_defs)

lemma detect_vault_open: "detect_open_mappers sim_os world_vault_open = [''vault_mapper'']"
  by (simp add: detect_open_mappers_def world_vault_open_def sim_defs str_defs)

theorem mount_container_refuses_open_mapper_witness:
  "mr_choice mount_vault = Some ''vault.img'' \<and>
   fst (splitext ''vault.img'') @ ''_mapper'' \<in> set (detect_open_mappers sim_os world_vault_open) \<and>
   runs (snd (mount_container sim_os cfg0 mount_vault (world_vault_open, []))) = [] \<and>
   fst (mount_container sim_os cfg0 mount_vault (world_vault_open, [])) = world_vault_open"
proof -
  have h1: "mr_choice mount_vault = Some ''vault.img''"
    by (simp add: mount_vault_def)
  have h2: "fst (splitext ''vault.img'') @ ''_mapper'' \<in>
              set (detect_open_mappers sim_os world_vault_open)"
    by (simp add: detect_vault_open str_defs)
  from h1 h2
    mount_container_refuses_open_mapper [of mount_vault "''vault.img''" sim_os cfg0 world_vault_open]
  show ?thesis
    by (simp add: verify_vault_open)
qed
subsection \<open>Evaluating the simulated system\<close>

lemmas argv_defs = open_argv_def close_argv_def mount_argv_def unmount_argv_def chown_argv_def
  df_argv_def

lemmas ui_defs = ask_for_string_def ask_passphrase_def ask_user_choice_def askyesno_def

lemmas sim_eval = sim_defs str_defs argv_defs ui_defs Let_def subprocess_run_def
  detect_open_mappers_def get_container_files_def verify_container_dir_on_partition_def
  parse_mount_path_def mtab_device_def mtab_line_def

lemma unmount_vault_mounted:
  "unmount_container sim_os cfg0 unmount_vault (world_vault_mounted, []) =
    (world_vault,
     [AskChoice ''Select Container to Unmount'' [''vault_mapper''],
      AskYesNo ''Confirm Unmount''
        (''Unmount & close:'' @ nl @ ''/dev/mapper/vault_mapper'' @ nl @ nl @ ''Proceed?'') True,
      Run (unmount_argv cfg0 ''/dev/mapper/vault_mapper'') 0,
      Run (close_argv ''vault_mapper'') 0,
      ShowInfo ''Success'' ''Unmounted & closed vault_mapper'',
      Log INFO ''Unmounted & closed vault_mapper''])"
  by (simp add: unmount_container_def world_vault_def world_vault_mounted_def unmount_vault_def
        sim_eval)

lemma unmount_vault_not_mounted:
  "unmount_container sim_os cfg0 unmount_vault (world_vault_open, []) =
    (world_vault_open,
     [AskChoice ''Select Container to Unmount'' [''vault_mapper''],
      AskYesNo ''Confirm Unmount''
        (''Unmount & close:'' @ nl @ ''/dev/mapper/vault_mapper'' @ nl @ nl @ ''Proceed?'') True,
      Run (unmount_argv cfg0 ''/dev/mapper/vault_mapper'') 1,
      ShowError ''Error'' ''Failed to unmount:'',
      Log ERROR ''Failed to unmount:''])"
  by (simp add: unmount_container_def world_vault_open_def unmount_vault_def sim_eval)

lemma sweep_ab:
  "startup_cleanup_check sim_os cfg0 True (world_ab, []) =
    (world0,
     [AskYesNo ''Startup Cleanup''
        (''Found leftover open containers:'' @ nl @ nl @ ''a_mapper'' @ nl @ ''b_mapper'' @
         nl @ nl @ ''Close them now?'') True,
      Run (unmount_argv cfg0 ''/dev/mapper/a_mapper'') 1,
      Run (close_argv ''a_mapper'') 0,
      Log INFO ''Closed leftover mapper a_mapper'',
      Run (unmount_argv cfg0 ''/dev/mapper/b_mapper'') 1,
      Run (close_argv ''b_mapper'') 0,
      Log INFO ''Closed leftover mapper b_mapper''])"
  by (simp add: startup_cleanup_check_def world_ab_def sim_eval)

subsection \<open>Unmount before close; the cleanup sweeps\<close>

lemma runs_unmount_container:
  "runs (snd (unmount_container sys cfg req (w, []))) = [] \<or>
   (\<exists>m rc. ur_choice req = Some m \<and> rc \<noteq> 0 \<and>
      runs (snd (unmount_container sys cfg req (w, []))) =
        [(unmount_argv cfg (''/dev/mapper/'' @ m), rc)]) \<or>
   (\<exists>m rc. ur_choice req = Some m \<and>
      runs (snd (unmount_container sys cfg req (w, []))) =
        [(unmount_argv cfg (''/dev/mapper/'' @ m), 0), (close_argv m, rc)])"
  by (auto simp: unmount_container_def Let_def ask_user_choice_def askyesno_def subprocess_run_eq
        case_prod_beta split: option.splits bool.splits)

lemma runs_cleanup_loop:
  "map fst (runs (snd (cleanup_loop sys cfg txt ms s))) =
     map fst (runs (snd s)) @ sweep_commands cfg ms"
  by (induction ms arbitrary: s)
     (simp_all add: sweep_commands_def Let_def subprocess_run_eq case_prod_beta)

lemma reports_cleanup_loop:
  "filter is_report (snd (cleanup_loop sys cfg txt ms s)) =
     filter is_report (snd s) @ map (\<lambda>m. Log INFO (txt @ m)) ms"
  by (induction ms arbitrary: s)
     (simp_all add: Let_def subprocess_run_eq case_prod_beta)

lemma cleanup_loop_exec_all:
  "runs (snd (cleanup_loop sys cfg txt ms s)) =
     runs (snd s) @ fst (exec_all sys (sweep_commands cfg ms) (fst s)) \<and>
   fst (cleanup_loop sys cfg txt ms s) = snd (exec_all sys (sweep_commands cfg ms) (fst s))"
  by (induction ms arbitrary: s)
     (simp_all add: sweep_commands_def Let_def subprocess_run_eq case_prod_beta)

lemma exec_all_sweep_ab:
  "exec_all sim_os (sweep_commands cfg0 [''a_mapper'', ''b_mapper'']) world_ab =
     ([(unmount_argv cfg0 ''/dev/mapper/a_mapper'', 1), (close_argv ''a_mapper'', 0),
       (unmount_argv cfg0 ''/dev/mapper/b_mapper'', 1), (close_argv ''b_mapper'', 0)],
      world0)"
  by (simp add: sweep_commands_def world_ab_def sim_eval)

text \<open>
  C4. In \<^verbatim>\<open>unmount_container\<close> a \<^verbatim>\<open>cryptsetup close\<close> is run only as the second command,
  right after an unmount of the same mapper that exited with 0; an unmount that exits
  with another status is the only command run. In the two cleanup paths, once the user
  has agreed, the commands run are unmount and close for every leftover mapper, in
  order, whatever the exit statuses: every one of them is executed, on the world that
  the one before has left, with the exit status the system gives it, and the world after
  the sweep is the world after the last of them.
\<close>

theorem close_only_after_unmount:
  "(\<forall>m rc. (close_argv m, rc) \<in> set (runs (snd (unmount_container sys cfg req (w, [])))) \<longrightarrow>
      runs (snd (unmount_container sys cfg req (w, []))) =
        [(unmount_argv cfg (''/dev/mapper/'' @ m), 0), (close_argv m, rc)]) \<and>
   (\<forall>d rc. (unmount_argv cfg d, rc) \<in> set (runs (snd (unmount_container sys cfg req (w, []))))
        \<and> rc \<noteq> 0 \<longrightarrow>
      runs (snd (unmount_container sys cfg req (w, []))) = [(unmount_argv cfg d, rc)]) \<and>
   map fst (runs (snd (startup_cleanup_check sys cfg True (w, [])))) =
     sweep_commands cfg (detect_open_mappers sys w) \<and>
   map fst (runs (snd (on_exit sys cfg True (w, [])))) =
     sweep_commands cfg (detect_open_mappers sys w) \<and>
   runs (snd (startup_cleanup_check sys cfg True (w, []))) =
     fst (exec_all sys (sweep_commands cfg (detect_open_mappers sys w)) w) \<and>
   fst (startup_cleanup_check sys cfg True (w, [])) =
     snd (exec_all sys (sweep_commands cfg (detect_open_mappers sys w)) w) \<and>
   runs (snd (on_exit sys cfg True (w, []))) =
     fst (exec_all sys (sweep_commands cfg (detect_open_mappers sys w)) w) \<and>
   fst (on_exit sys cfg True (w, [])) =
     snd (exec_all sys (sweep_commands cfg (detect_open_mappers sys w)) w)"
proof (intro conjI allI impI)
  fix m rc
  assume "(close_argv m, rc) \<in> set (runs (snd (unmount_container sys cfg req (w, []))))"
  with runs_unmount_container [of sys cfg req w]
  show "runs (snd (unmount_container sys cfg req (w, []))) =
        [(unmount_argv cfg (''/dev/mapper/'' @ m), 0), (close_argv m, rc)]"
    by (auto simp: close_argv_def unmount_argv_def)
next
  fix d rc
  assume "(unmount_argv cfg d, rc) \<in> set (runs (snd (unmount_container sys cfg req (w, []))))
            \<and> rc \<noteq> 0"
  with runs_unmount_container [of sys cfg req w]
  show "runs (snd (unmount_container sys cfg req (w, []))) = [(unmount_argv cfg d, rc)]"
    by (auto simp: close_argv_def unmount_argv_def)
next
  show "map fst (runs (snd (startup_cleanup_check sys cfg True (w, [])))) =
     sweep_commands cfg (detect_open_mappers sys w)"
    by (simp add: startup_cleanup_check_def Let_def askyesno_def runs_cleanup_loop
          sweep_commands_def)
next
  show "map fst (runs (snd (on_exit sys cfg True (w, [])))) =
     sweep_commands cfg (detect_open_mappers sys w)"
    by (simp add: on_exit_def Let_def askyesno_def runs_cleanup_loop sweep_commands_def)
next
  show "runs (snd (startup_cleanup_check sys cfg True (w, []))) =
     fst (exec_all sys (sweep_commands cfg (detect_open_mappers sys w)) w)"
    by (simp add: startup_cleanup_check_def Let_def askyesno_def cleanup_loop_exec_all
          sweep_commands_def)
next
  show "fst (startup_cleanup_check sys cfg True (w, [])) =
     snd (exec_all sys (sweep_commands cfg (detect_open_mappers sys w)) w)"
    by (simp add: startup_cleanup_check_def Let_def askyesno_def cleanup_loop_exec_all
          sweep_commands_def)
next
  show "runs (snd (on_exit sys cfg True (w, []))) =
     fst (exec_all sys (sweep_commands cfg (detect_open_mappers sys w)) w)"
    by (simp add: on_exit_def Let_def askyesno_def cleanup_loop_exec_all sweep_commands_def)
next
  show "fst (on_exit sys cfg True (w, [])) =
     snd (exec_all sys (sweep_commands cfg (detect_open_mappers sys w)) w)"
    by (simp add: on_exit_def Let_def askyesno_def cleanup_loop_exec_all sweep_commands_def)
qed

theorem close_only_after_unmount_witness:
  "(close_argv ''vault_mapper'', 0) \<in>
     set (runs (snd (unmount_container sim_os cfg0 unmount_vault (world_vault_mounted, [])))) \<and>
   runs (snd (unmount_container sim_os cfg0 unmount_vault (world_vault_mounted, []))) =
     [(unmount_argv cfg0 ''/dev/mapper/vault_mapper'', 0), (close_argv ''vault_mapper'', 0)] \<and>
   (unmount_argv cfg0 ''/dev/mapper/vault_mapper'', 1) \<in>
     set (runs (snd (unmount_container sim_os cfg0 unmount_vault (world_vault_open, [])))) \<and>
   runs (snd (unmount_container sim_os cfg0 unmount_vault (world_vault_open, []))) =
     [(unmount_argv cfg0 ''/dev/mapper/vault_mapper'', 1)] \<and>
   map fst (runs (snd (startup_cleanup_check sim_os cfg0 True (world_ab, [])))) =
     sweep_commands cfg0 [''a_mapper'', ''b_mapper''] \<and>
   runs (snd (startup_cleanup_check sim_os cfg0 True (world_ab, []))) =
     [(unmount_argv cfg0 ''/dev/mapper/a_mapper'', 1), (close_argv ''a_mapper'', 0),
      (unmount_argv cfg0 ''/dev/mapper/b_mapper'', 1), (close_argv ''b_mapper'', 0)] \<and>
   fst (startup_cleanup_check sim_os cfg0 True (world_ab, [])) = world0 \<and>
   runs (snd (on_exit sim_os cfg0 True (world_ab, []))) =
     [(unmount_argv cfg0 ''/dev/mapper/a_mapper'', 1), (close_argv ''a_mapper'', 0),
      (unmount_argv cfg0 ''/dev/mapper/b_mapper'', 1), (close_argv ''b_mapper'', 0)] \<and>
   fst (on_exit sim_os cfg0 True (world_ab, [])) = world0"
proof -
  have h1: "(close_argv ''vault_mapper'', 0) \<in>
     set (runs (snd (unmount_container sim_os cfg0 unmount_vault (world_vault_mounted, []))))"
    by (simp add: unmount_vault_mounted)
  have h2: "(unmount_argv cfg0 ''/dev/mapper/vault_mapper'', 1) \<in>
     set (runs (snd (unmount_container sim_os cfg0 unmount_vault (world_vault_open, [])))) \<and>
     (1::int) \<noteq> 0"
    by (simp add: unmount_vault_not_mounted)
  have d: "detect_open_mappers sim_os world_ab = [''a_mapper'', ''b_mapper'']"
    by (simp add: world_ab_def sim_eval)
  note t1 = close_only_after_unmount [of sim_os cfg0 unmount_vault world_vault_mounted]
  note t2 = close_only_after_unmount [of sim_os cfg0 unmount_vault world_vault_open]
  note t3 = close_only_after_unmount [of sim_os cfg0 unmount_vault world_ab]
  have c1: "runs (snd (unmount_container sim_os cfg0 unmount_vault (world_vault_mounted, []))) =
     [(unmount_argv cfg0 ''/dev/mapper/vault_mapper'', 0), (close_argv ''vault_mapper'', 0)]"
    using t1 [THEN conjunct1, rule_format, OF h1] by simp
  have c2: "runs (snd (unmount_container sim_os cfg0 unmount_vault (world_vault_open, []))) =
     [(unmount_argv cfg0 ''/dev/mapper/vault_mapper'', 1)]"
    using t2 [THEN conjunct2, THEN conjunct1, rule_format, OF h2] by simp
  have c3: "map fst (runs (snd (startup_cleanup_check sim_os cfg0 True (world_ab, [])))) =
     sweep_commands cfg0 [''a_mapper'', ''b_mapper'']"
    using t3 [THEN conjunct2, THEN conjunct2, THEN conjunct1] d by simp
  have c4: "runs (snd (startup_cleanup_check sim_os cfg0 True (world_ab, []))) =
     [(unmount_argv cfg0 ''/dev/mapper/a_mapper'', 1), (close_argv ''a_mapper'', 0),
      (unmount_argv cfg0 ''/dev/mapper/b_mapper'', 1), (close_argv ''b_mapper'', 0)]"
    using t3 [THEN conjunct2, THEN conjunct2, THEN conjunct2, THEN conjunct2, THEN conjunct1]
    by (simp only: d exec_all_sweep_ab fst_conv)
  have c5: "fst (startup_cleanup_check sim_os cfg0 True (world_ab, [])) = world0"
    using t3 [THEN conjunct2, THEN conjunct2, THEN conjunct2, THEN conjunct2, THEN conjunct2,
              THEN conjunct1]
    by (simp only: d exec_all_sweep_ab snd_conv)
  have c6: "runs (snd (on_exit sim_os cfg0 True (world_ab, []))) =
     [(unmount_argv cfg0 ''/dev/mapper/a_mapper'', 1), (close_argv ''a_mapper'', 0),
      (unmount_argv cfg0 ''/dev/mapper/b_mapper'', 1), (close_argv ''b_mapper'', 0)]"
    using t3 [THEN conjunct2, THEN conjunct2, THEN conjunct2, THEN conjunct2, THEN conjunct2,
              THEN conjunct2, THEN conjunct1]
    by (simp only: d exec_all_sweep_ab fst_conv)
  have c7: "fst (on_exit sim_os cfg0 True (world_ab, [])) = world0"
    using t3 [THEN conjunct2, THEN conjunct2, THEN conjunct2, THEN conjunct2, THEN conjunct2,
              THEN conjunct2, THEN conjunct2]
    by (simp only: d exec_all_sweep_ab snd_conv)
  from h1 h2 c1 c2 c3 c4 c5 c6 c7 show ?thesis by simp
qed

text \<open>
  C5. Once the user has agreed, each cleanup path runs unmount and then close for every
  leftover mapper, in order, whatever the exit statuses of the commands before: nothing
  is skipped. The exit statuses are dropped, though: the only reports of a sweep are the
  lines \<^verbatim>\<open>Closed leftover mapper <m>\<close> (at exit \<^verbatim>\<open>Auto-closed leftover mapper <m>\<close> and
  the final line), one for every mapper at level INFO, so no failure is reported or
  collected.
\<close>

theorem sweep_runs_all_reports_none:
  "map fst (runs (snd (startup_cleanup_check sys cfg True (w, [])))) =
     sweep_commands cfg (detect_open_mappers sys w) \<and>
   filter is_report (snd (startup_cleanup_check sys cfg True (w, []))) =
     map (\<lambda>m. Log INFO (''Closed leftover mapper '' @ m)) (detect_open_mappers sys w) \<and>
   filter is_failure_report (snd (startup_cleanup_check sys cfg True (w, []))) = [] \<and>
   map fst (runs (snd (on_exit sys cfg True (w, [])))) =
     sweep_commands cfg (detect_open_mappers sys w) \<and>
   filter is_report (snd (on_exit sys cfg True (w, []))) =
     map (\<lambda>m. Log INFO (''Auto-closed leftover mapper '' @ m)) (detect_open_mappers sys w) @
     [Log INFO ''Exiting application (V5).''] \<and>
   filter is_failure_report (snd (on_exit sys cfg True (w, []))) = []"
proof -
  have sub: "filter is_failure_report tr = filter is_failure_report (filter is_report tr)" for tr
  proof -
    have "is_failure_report e \<Longrightarrow> is_report e" for e
      by (cases e) simp_all
    then have "filter is_failure_report (filter is_report tr) = filter is_failure_report tr"
      by (induction tr) auto
    then show ?thesis by simp
  qed
  have s1: "filter is_report (snd (startup_cleanup_check sys cfg True (w, []))) =
     map (\<lambda>m. Log INFO (''Closed leftover mapper '' @ m)) (detect_open_mappers sys w)"
    by (simp add: startup_cleanup_check_def Let_def askyesno_def reports_cleanup_loop)
  have e1: "filter is_report (snd (on_exit sys cfg True (w, []))) =
     map (\<lambda>m. Log INFO (''Auto-closed leftover mapper '' @ m)) (detect_open_mappers sys w) @
     [Log INFO ''Exiting application (V5).'']"
    by (simp add: on_exit_def Let_def askyesno_def reports_cleanup_loop)
  have s2: "filter is_failure_report (snd (startup_cleanup_check sys cfg True (w, []))) = []"
    by (subst sub, subst s1) (simp add: filter_empty_conv)
  have e2: "filter is_failure_report (snd (on_exit sys cfg True (w, []))) = []"
    by (subst sub, subst e1) (simp add: filter_empty_conv)
  have s3: "map fst (runs (snd (startup_cleanup_check sys cfg True (w, [])))) =
     sweep_commands cfg (detect_open_mappers sys w)"
    by (simp add: startup_cleanup_check_def Let_def askyesno_def runs_cleanup_loop
          sweep_commands_def)
  have e3: "map fst (runs (snd (on_exit sys cfg True (w, [])))) =
     sweep_commands cfg (detect_open_mappers sys w)"
    by (simp add: on_exit_def Let_def askyesno_def runs_cleanup_loop sweep_commands_def)
  from s1 s2 s3 e1 e2 e3 show ?thesis by simp
qed

text \<open>
  The claim as stated fails: with \<^verbatim>\<open>a_mapper\<close> and \<^verbatim>\<open>b_mapper\<close> left open and not
  mounted, both unmounts exit with status 1, and the sweep reports nothing but two INFO
  lines that say the mappers were closed.
\<close>

theorem sweep_failure_not_reported:
  "runs (snd (startup_cleanup_check sim_os cfg0 True (world_ab, []))) =
     [(unmount_argv cfg0 ''/dev/mapper/a_mapper'', 1), (close_argv ''a_mapper'', 0),
      (unmount_argv cfg0 ''/dev/mapper/b_mapper'', 1), (close_argv ''b_mapper'', 0)] \<and>
   filter is_report (snd (startup_cleanup_check sim_os cfg0 True (world_ab, []))) =
     [Log INFO ''Closed leftover mapper a_mapper'', Log INFO ''Closed leftover mapper b_mapper''] \<and>
   filter is_failure_report (snd (startup_cleanup_check sim_os cfg0 True (world_ab, []))) = []"
  by (simp add: sweep_ab)

subsection \<open>Creation stops at the first failing step\<close>

lemma run_checked_runs:
  "(fst (run_checked sys cmds s) \<and>
      runs (snd (snd (run_checked sys cmds s))) = runs (snd s) @ map (\<lambda>c. (fst c, 0)) cmds) \<or>
   (\<not> fst (run_checked sys cmds s) \<and>
      (\<exists>k rc. k < length cmds \<and> rc \<noteq> 0 \<and>
         runs (snd (snd (run_checked sys cmds s))) =
           runs (snd s) @ map (\<lambda>c. (fst c, 0)) (take k cmds) @ [(fst (cmds ! k), rc)]))"
proof (induction cmds arbitrary: s)
  case Nil
  show ?case by simp
next
  case (Cons c cmds)
  obtain argv inp where c: "c = (argv, inp)" by (cases c)
  define rc where "rc = fst (fst (exec sys argv inp (fst s)))"
  define s' where "s' = (snd (exec sys argv inp (fst s)), snd s @ [Run argv rc])"
  have step: "run_checked sys (c # cmds) s = (if rc \<noteq> 0 then (False, s') else run_checked sys cmds s')"
    by (simp add: c rc_def s'_def subprocess_run_eq case_prod_beta)
  have rs: "runs (snd s') = runs (snd s) @ [(argv, rc)]"
    by (simp add: s'_def)
  have fc: "fst c = argv"
    by (simp add: c)
  show ?case
  proof (cases "rc = 0")
    case False
    then have "\<not> fst (run_checked sys (c # cmds) s) \<and> 0 < length (c # cmds) \<and> rc \<noteq> 0 \<and>
         runs (snd (snd (run_checked sys (c # cmds) s))) =
           runs (snd s) @ map (\<lambda>c. (fst c, 0)) (take 0 (c # cmds)) @ [(fst ((c # cmds) ! 0), rc)]"
      by (simp add: step rs fc del: run_checked.simps)
    then show ?thesis by blast
  next
    case True
    then have eq: "run_checked sys (c # cmds) s = run_checked sys cmds s'"
      by (simp add: step del: run_checked.simps)
    from Cons.IH [of s'] show ?thesis
    proof
      assume "fst (run_checked sys cmds s') \<and>
        runs (snd (snd (run_checked sys cmds s'))) = runs (snd s') @ map (\<lambda>c. (fst c, 0)) cmds"
      then show ?thesis by (simp add: eq rs True fc del: run_checked.simps)
    next
      assume "\<not> fst (run_checked sys cmds s') \<and>
        (\<exists>k rc. k < length cmds \<and> rc \<noteq> 0 \<and>
           runs (snd (snd (run_checked sys cmds s'))) =
             runs (snd s') @ map (\<lambda>c. (fst c, 0)) (take k cmds) @ [(fst (cmds ! k), rc)])"
      then obtain k r where nf: "\<not> fst (run_checked sys cmds s')" and k: "k < length cmds"
        and r: "r \<noteq> 0"
        and rr: "runs (snd (snd (run_checked sys cmds s'))) =
             runs (snd s') @ map (\<lambda>c. (fst c, 0)) (take k cmds) @ [(fst (cmds ! k), r)]"
        by blast
      have "\<not> fst (run_checked sys (c # cmds) s) \<and> Suc k < length (c # cmds) \<and> r \<noteq> 0 \<and>
         runs (snd (snd (run_checked sys (c # cmds) s))) =
           runs (snd s) @ map (\<lambda>c. (fst c, 0)) (take (Suc k) (c # cmds)) @
           [(fst ((c # cmds) ! Suc k), r)]"
        using nf k r rr by (simp add: eq rs True fc del: run_checked.simps)
      then show ?thesis by blast
    qed
  qed
qed

lemma runs_create_try:
  "runs (snd (create_try sys name size_str path pw s)) =
     runs (snd (snd (run_checked sys (create_commands name size_str path pw) s)))"
  by (simp add: create_try_def split: prod.splits bool.splits)

lemma runs_check_free_space:
  "runs (snd (snd (check_free_space sys directory size_str s))) = runs (snd s) \<or>
   (\<exists>rc. runs (snd (snd (check_free_space sys directory size_str s))) =
      runs (snd s) @ [(df_argv directory, rc)])"
  by (auto simp: check_free_space_def subprocess_run_eq case_prod_beta Let_def
        split: size_result.splits option.splits)

lemma create_container_reaches_try:
  "runs (snd (create_container sys cfg req (w, []))) = [] \<or>
   (\<exists>rc. runs (snd (create_container sys cfg req (w, []))) = [(df_argv (container_dir cfg), rc)]) \<or>
   (\<exists>n0 z0 pw s.
      cr_name req = Some n0 \<and> cr_size req = Some z0 \<and> cr_passphrase req = Some pw \<and>
      filter (\<lambda>r. fst r \<noteq> df_argv (container_dir cfg)) (runs (snd s)) = [] \<and>
      create_container sys cfg req (w, []) =
        create_try sys (py_strip n0) (py_strip z0)
          (path_join (container_dir cfg) (py_strip n0 @ ''.img'')) pw s)"
proof -
  obtain r s1 where v: "verify_container_dir_on_partition sys cfg (w, []) = (r, s1)"
    by (cases "verify_container_dir_on_partition sys cfg (w, [])")
  have r0: "runs (snd s1) = []"
    using runs_verify [of sys cfg "(w, [])"] v by simp
  show ?thesis
  proof (cases "r = Inr True \<and> truthy (map_option py_strip (cr_name req)) \<and>
                truthy (map_option py_strip (cr_size req)) \<and> truthy (cr_passphrase req)")
    case False
    then have "runs (snd (create_container sys cfg req (w, []))) = []"
      using v r0
      by (auto simp: create_container_def ask_for_string_def ask_passphrase_def truthy_def
            split: sum.splits bool.splits option.splits)
    then show ?thesis by simp
  next
    case True
    then obtain n0 z0 pw where req: "cr_name req = Some n0" "cr_size req = Some z0"
        "cr_passphrase req = Some pw" and ne: "py_strip n0 \<noteq> []" "py_strip z0 \<noteq> []" "pw \<noteq> []"
      and r: "r = Inr True"
      by (auto simp: truthy_def split: option.splits)
    define s4 where "s4 = emit (AskPassphrase ''LUKS Passphrase'')
       (emit (AskString ''Container Size'') (emit (AskString ''Container Name'') s1))"
    define path where "path = path_join (container_dir cfg) (py_strip n0 @ ''.img'')"
    have r4: "runs (snd s4) = []"
      by (simp add: s4_def r0)
    obtain b s5 where c: "check_free_space sys (container_dir cfg) (py_strip z0) s4 = (b, s5)"
      by (cases "check_free_space sys (container_dir cfg) (py_strip z0) s4")
    from runs_check_free_space [of sys "container_dir cfg" "py_strip z0" s4] c r4
    have r5: "runs (snd s5) = [] \<or> (\<exists>rc. runs (snd s5) = [(df_argv (container_dir cfg), rc)])"
      by simp
    have cc: "create_container sys cfg req (w, []) =
        (if path_exists sys path (fst s4)
         then emit (ShowError ''Error'' (''Container file already exists:'' @ nl @ path)) s4
         else case b of
                Inl e \<Rightarrow> emit (Stopped (Uncaught e)) s5
              | Inr False \<Rightarrow> s5
              | Inr True \<Rightarrow> create_confirmed sys req (py_strip n0) (py_strip z0) path pw s5)"
      using v r req ne c
      by (simp add: create_container_def ask_for_string_def ask_passphrase_def s4_def path_def
            Let_def split: sum.splits bool.splits)
    show ?thesis
    proof (cases "\<not> path_exists sys path (fst s4) \<and> b = Inr True \<and> cr_confirm req")
      case False
      then have "runs (snd (create_container sys cfg req (w, []))) = runs (snd s4) \<or>
                 runs (snd (create_container sys cfg req (w, []))) = runs (snd s5)"
        by (auto simp: cc create_confirmed_def askyesno_def split: sum.splits bool.splits)
      with r4 r5 show ?thesis by auto
    next
      case True
      define s6 where "s6 = emit (AskYesNo ''Confirm''
             (''Create new LUKS container:'' @ nl @ ''File: '' @ path @ nl @
              ''Size: '' @ py_strip z0 @ nl @ nl @ ''Proceed?'') True) s5"
      have "create_container sys cfg req (w, []) =
              create_try sys (py_strip n0) (py_strip z0) path pw s6"
        using True by (simp add: cc create_confirmed_def askyesno_def s6_def)
      moreover have "filter (\<lambda>r. fst r \<noteq> df_argv (container_dir cfg)) (runs (snd s6)) = []"
        using r5 by (auto simp: s6_def)
      ultimately show ?thesis
        using req unfolding path_def by blast
    qed
  qed
qed

lemma create_argvs_eq:
  "create_argvs cfg n0 z0 pw =
     [[''truncate'', ''-s'', py_strip z0, path_join (container_dir cfg) (py_strip n0 @ ''.img'')],
      [''cryptsetup'', ''-q'', ''luksFormat'', ''--type'', ''luks2'',
       path_join (container_dir cfg) (py_strip n0 @ ''.img'')],
      open_argv (path_join (container_dir cfg) (py_strip n0 @ ''.img'')) (py_strip n0 @ ''_mapper''),
      [''mkfs.ext4'', ''/dev/mapper/'' @ py_strip n0 @ ''_mapper''],
      [''e2label'', ''/dev/mapper/'' @ py_strip n0 @ ''_mapper'', py_strip n0],
      close_argv (py_strip n0 @ ''_mapper'')]"
  by (simp add: create_argvs_def create_commands_def Let_def open_argv_def close_argv_def)

lemma take_six:
  assumes "k < 6"
  shows "take k [a, b, c, d, e, f] =
     (if k = 0 then [] else if k = 1 then [a] else if k = 2 then [a, b]
      else if k = 3 then [a, b, c] else if k = 4 then [a, b, c, d] else [a, b, c, d, e])"
proof -
  from assms have "k = 0 \<or> k = 1 \<or> k = 2 \<or> k = 3 \<or> k = 4 \<or> k = 5"
    by arith
  then show ?thesis by auto
qed

text \<open>
  C2. When a step of the creation sequence exits with a non-zero status, the steps
  \<^verbatim>\<open>create_container\<close> has run are the steps before it, each with status 0, and the
  failing step last: no later step runs and nothing is rolled back. A mapper can stay
  behind, though: \<^verbatim>\<open>cryptsetup open\<close> has succeeded exactly when the failing step is
  \<^verbatim>\<open>mkfs.ext4\<close>, \<^verbatim>\<open>e2label\<close> or \<^verbatim>\<open>cryptsetup close\<close>, and in no case has a
  \<^verbatim>\<open>cryptsetup close\<close> succeeded.
\<close>

theorem create_container_aborts_at_failing_step:
  assumes "(argv, rc) \<in> set (create_steps cfg (snd (create_container sys cfg req (w, []))))"
    and "rc \<noteq> 0"
  shows "\<exists>n0 z0 pw k.
           cr_name req = Some n0 \<and> cr_size req = Some z0 \<and> cr_passphrase req = Some pw \<and>
           k < 6 \<and> argv = create_argvs cfg n0 z0 pw ! k \<and>
           create_steps cfg (snd (create_container sys cfg req (w, []))) =
             map (\<lambda>a. (a, 0)) (take k (create_argvs cfg n0 z0 pw)) @ [(argv, rc)] \<and>
           ((open_argv (path_join (container_dir cfg) (py_strip n0 @ ''.img''))
               (py_strip n0 @ ''_mapper''), 0)
              \<in> set (create_steps cfg (snd (create_container sys cfg req (w, [])))) \<longleftrightarrow> 3 \<le> k) \<and>
           (close_argv (py_strip n0 @ ''_mapper''), 0)
              \<notin> set (create_steps cfg (snd (create_container sys cfg req (w, []))))"
proof -
  let ?T = "snd (create_container sys cfg req (w, []))"
  from create_container_reaches_try [of sys cfg req w]
  consider (none) "runs ?T = []"
    | (df) r where "runs ?T = [(df_argv (container_dir cfg), r)]"
    | (reached) n0 z0 pw s where "cr_name req = Some n0" "cr_size req = Some z0"
        "cr_passphrase req = Some pw"
        "filter (\<lambda>r. fst r \<noteq> df_argv (container_dir cfg)) (runs (snd s)) = []"
        "create_container sys cfg req (w, []) =
           create_try sys (py_strip n0) (py_strip z0)
             (path_join (container_dir cfg) (py_strip n0 @ ''.img'')) pw s"
    by blast
  then show ?thesis
  proof cases
    case none
    with assms show ?thesis by (simp add: create_steps_def)
  next
    case df
    with assms show ?thesis by (simp add: create_steps_def)
  next
    case reached
    let ?cmds = "create_commands (py_strip n0) (py_strip z0)
                   (path_join (container_dir cfg) (py_strip n0 @ ''.img'')) pw"
    let ?A = "create_argvs cfg n0 z0 pw"
    have A: "map fst ?cmds = ?A"
      by (simp add: create_argvs_def)
    have len: "length ?cmds = 6"
      by (simp add: create_commands_def Let_def)
    have nodf: "filter (\<lambda>r. fst r \<noteq> df_argv (container_dir cfg)) (map (\<lambda>a. (a, 0::int)) (take k ?A)) =
                  map (\<lambda>a. (a, 0)) (take k ?A)" for k
    proof -
      have "\<forall>a \<in> set ?A. a \<noteq> df_argv (container_dir cfg)"
        by (simp add: create_argvs_eq df_argv_def open_argv_def close_argv_def)
      then have "\<forall>a \<in> set (take k ?A). a \<noteq> df_argv (container_dir cfg)"
        by (meson in_set_takeD)
      then show ?thesis
        by (simp add: filter_id_conv)
    qed
    have nodf1: "k < 6 \<Longrightarrow> ?A ! k \<noteq> df_argv (container_dir cfg)" for k
    proof -
      assume "k < 6"
      then have "?A ! k \<in> set ?A"
        using len A by (metis length_map nth_mem)
      then show ?thesis
        by (auto simp: create_argvs_eq df_argv_def open_argv_def close_argv_def)
    qed
    have rT: "runs ?T = runs (snd (snd (run_checked sys ?cmds s)))"
      by (simp add: reached(5) runs_create_try)
    from run_checked_runs [of sys ?cmds s] show ?thesis
    proof
      assume "fst (run_checked sys ?cmds s) \<and>
        runs (snd (snd (run_checked sys ?cmds s))) = runs (snd s) @ map (\<lambda>c. (fst c, 0)) ?cmds"
      then have "set (create_steps cfg ?T) \<subseteq> set (map (\<lambda>c. (fst c, 0)) ?cmds)"
        using reached(4) by (auto simp: create_steps_def rT)
      with assms show ?thesis by auto
    next
      assume "\<not> fst (run_checked sys ?cmds s) \<and>
        (\<exists>k rc. k < length ?cmds \<and> rc \<noteq> 0 \<and>
           runs (snd (snd (run_checked sys ?cmds s))) =
             runs (snd s) @ map (\<lambda>c. (fst c, 0)) (take k ?cmds) @ [(fst (?cmds ! k), rc)])"
      then obtain k r where k: "k < 6" and r: "r \<noteq> 0"
        and rr: "runs (snd (snd (run_checked sys ?cmds s))) =
             runs (snd s) @ map (\<lambda>c. (fst c, 0)) (take k ?cmds) @ [(fst (?cmds ! k), r)]"
        using len by auto
      have m1: "map (\<lambda>c. (fst c, 0::int)) (take k ?cmds) = map (\<lambda>a. (a, 0)) (take k ?A)"
        by (simp add: A [symmetric] take_map)
      have m2: "fst (?cmds ! k) = ?A ! k"
        using k len by (simp add: A [symmetric])
      have steps: "create_steps cfg ?T = map (\<lambda>a. (a, 0)) (take k ?A) @ [(?A ! k, r)]"
        using reached(4) nodf [of k] nodf1 [OF k]
        by (simp add: create_steps_def rT rr m1 m2)
      from assms steps have ar: "argv = ?A ! k" "rc = r"
        by auto
      have op: "(open_argv (path_join (container_dir cfg) (py_strip n0 @ ''.img''))
               (py_strip n0 @ ''_mapper''), 0) \<in> set (create_steps cfg ?T) \<longleftrightarrow> 3 \<le> k"
        using k r
        by (auto simp: steps create_argvs_eq take_six open_argv_def close_argv_def
              split: if_splits)
      have cl: "(close_argv (py_strip n0 @ ''_mapper''), 0) \<notin> set (create_steps cfg ?T)"
        using k r
        by (auto simp: steps create_argvs_eq take_six open_argv_def close_argv_def
              split: if_splits)
      from reached(1,2,3) k ar steps op cl show ?thesis
        by blast
    qed
  qed
qed

lemma create_vault_mkfs_fails:
  "create_container sim_os cfg0 create_vault (world_mkfs_fails, []) =
     (world_mkfs_fails\<lparr>sim_cfiles := [''vault.img''], sim_mappers := [''vault_mapper'']\<rparr>,
      [ReadProcMounts, AskString ''Container Name'', AskString ''Container Size'',
       AskPassphrase ''LUKS Passphrase'',
       Run (df_argv ''/mnt/data/c'') 0,
       AskYesNo ''Confirm''
         (''Create new LUKS container:'' @ nl @ ''File: /mnt/data/c/vault.img'' @ nl @
          ''Size: 100M'' @ nl @ nl @ ''Proceed?'') True,
       Run [''truncate'', ''-s'', ''100M'', ''/mnt/data/c/vault.img''] 0,
       Run [''cryptsetup'', ''-q'', ''luksFormat'', ''--type'', ''luks2'',
            ''/mnt/data/c/vault.img''] 0,
       Run (open_argv ''/mnt/data/c/vault.img'' ''vault_mapper'') 0,
       Run [''mkfs.ext4'', ''/dev/mapper/vault_mapper''] 1,
       ShowError ''Error'' ''Failed to create container:'',
       Log ERROR ''Failed to create container:''])"
  by (simp add: create_container_def create_confirmed_def create_try_def create_commands_def
        check_free_space_def parse_size_100M world_mkfs_fails_def create_vault_def sim_eval)

text \<open>
  The claim as stated fails: when \<^verbatim>\<open>mkfs.ext4\<close> fails, \<^verbatim>\<open>create_container\<close> stops, and
  the mapper \<^verbatim>\<open>vault_mapper\<close>, which was not open before, is open after it returns.
\<close>

theorem create_failure_leaves_mapper_open:
  "create_steps cfg0 (snd (create_container sim_os cfg0 create_vault (world_mkfs_fails, []))) =
     [([''truncate'', ''-s'', ''100M'', ''/mnt/data/c/vault.img''], 0),
      ([''cryptsetup'', ''-q'', ''luksFormat'', ''--type'', ''luks2'', ''/mnt/data/c/vault.img''], 0),
      (open_argv ''/mnt/data/c/vault.img'' ''vault_mapper'', 0),
      ([''mkfs.ext4'', ''/dev/mapper/vault_mapper''], 1)] \<and>
   detect_open_mappers sim_os world_mkfs_fails = [] \<and>
   detect_open_mappers sim_os
     (fst (create_container sim_os cfg0 create_vault (world_mkfs_fails, []))) = [''vault_mapper'']"
  by (simp add: create_vault_mkfs_fails create_steps_def)
     (simp add: world_mkfs_fails_def sim_eval)

theorem create_container_aborts_at_failing_step_witness:
  "([''mkfs.ext4'', ''/dev/mapper/vault_mapper''], 1)
     \<in> set (create_steps cfg0 (snd (create_container sim_os cfg0 create_vault (world_mkfs_fails, [])))) \<and>
   (1::int) \<noteq> 0 \<and>
   (\<exists>n0 z0 pw k.
      cr_name create_vault = Some n0 \<and> cr_size create_vault = Some z0 \<and>
      cr_passphrase create_vault = Some pw \<and> k < 6 \<and>
      [''mkfs.ext4'', ''/dev/mapper/vault_mapper''] = create_argvs cfg0 n0 z0 pw ! k \<and>
      create_steps cfg0 (snd (create_container sim_os cfg0 create_vault (world_mkfs_fails, []))) =
        map (\<lambda>a. (a, 0)) (take k (create_argvs cfg0 n0 z0 pw)) @
        [([''mkfs.ext4'', ''/dev/mapper/vault_mapper''], 1)])"
proof -
  have h1: "([''mkfs.ext4'', ''/dev/mapper/vault_mapper''], 1)
     \<in> set (create_steps cfg0 (snd (create_container sim_os cfg0 create_vault (world_mkfs_fails, []))))"
    by (simp add: create_vault_mkfs_fails create_steps_def) (simp add: sim_eval)
  have h2: "(1::int) \<noteq> 0"
    by simp
  from create_container_aborts_at_failing_step [OF h1 h2] h1 h2 show ?thesis
    by blast
qed

subsection \<open>Mounting: what a failing \<^verbatim>\<open>chown\<close> reports\<close>

lemma verify_True:
  assumes "verify_container_dir_on_partition sys cfg s = (Inr True, s1)"
  shows "(path_exists sys (container_dir cfg) (fst s) \<and> fst s1 = fst s \<and>
          snd s1 = snd s @ [ReadProcMounts]) \<or>
         (\<not> path_exists sys (container_dir cfg) (fst s) \<and>
          fst s1 = snd (makedirs sys (container_dir cfg) (fst s)) \<and>
          snd s1 = snd s @ [MakeDirs (container_dir cfg) True, ReadProcMounts])"
  using assms
  by (auto simp: verify_container_dir_on_partition_def Let_def case_prod_beta
        split: if_splits bool.splits sum.splits prod.splits)

lemma mount_container_reaches_try:
  "runs (snd (mount_container sys cfg req (w, []))) = [] \<or>
   (\<exists>cfile pw s.
      mr_choice req = Some cfile \<and>
      runs (snd s) = [] \<and> filter is_report (snd s) = [] \<and>
      fst (verify_container_dir_on_partition sys cfg (w, [])) = Inr True \<and>
      fst s = fst (snd (verify_container_dir_on_partition sys cfg (w, []))) \<and>
      fst (splitext cfile) @ ''_mapper'' \<notin> set (detect_open_mappers sys (fst s)) \<and>
      mount_container sys cfg req (w, []) =
        mount_try sys cfg cfile (path_join (container_dir cfg) cfile)
          (fst (splitext cfile) @ ''_mapper'') pw s)"
proof -
  obtain r s1 where v: "verify_container_dir_on_partition sys cfg (w, []) = (r, s1)"
    by (cases "verify_container_dir_on_partition sys cfg (w, [])")
  have r0: "runs (snd s1) = []"
    using runs_verify [of sys cfg "(w, [])"] v by simp
  show ?thesis
  proof (cases "r = Inr True \<and> get_container_files sys cfg (fst s1) \<noteq> [] \<and>
                truthy (mr_choice req) \<and>
                fst (splitext (the (mr_choice req))) @ ''_mapper''
                  \<notin> set (detect_open_mappers sys (fst s1)) \<and>
                truthy (mr_passphrase req) \<and> mr_confirm req")
    case False
    then have "runs (snd (mount_container sys cfg req (w, []))) = []"
      using v r0
      by (auto simp: mount_container_def ask_user_choice_def ask_passphrase_def askyesno_def
            truthy_def Let_def
            split: sum.splits bool.splits option.splits)
    then show ?thesis by simp
  next
    case True
    then obtain cfile pw where req: "mr_choice req = Some cfile" "mr_passphrase req = Some pw"
      and ne: "cfile \<noteq> []" "pw \<noteq> []"
      by (auto simp: truthy_def split: option.splits)
    from True have r: "r = Inr True" by simp
    define s4 where "s4 = emit (AskYesNo ''Confirm''
         (''Mount container:'' @ nl @ path_join (container_dir cfg) cfile @ nl @ nl @ ''Proceed?'')
         True)
       (emit (AskPassphrase (''LUKS Passphrase for '' @ cfile))
          (emit (AskChoice ''Select Container to Mount'' (get_container_files sys cfg (fst s1)))
             s1))"
    have t1: "filter is_report (snd s1) = []"
      using verify_True [of sys cfg "(w, [])" s1] v r by auto
    have a: "runs (snd s4) = []" "filter is_report (snd s4) = []" "fst s4 = fst s1"
      by (simp_all add: s4_def r0 t1)
    have "mount_container sys cfg req (w, []) =
        mount_try sys cfg cfile (path_join (container_dir cfg) cfile)
          (fst (splitext cfile) @ ''_mapper'') pw s4"
      using True v req ne
      by (simp add: mount_container_def ask_user_choice_def ask_passphrase_def askyesno_def
            Let_def s4_def)
    with a req True v show ?thesis
      by (intro disjI2 exI [of _ cfile] exI [of _ pw] exI [of _ s4]) simp
  qed
qed

lemma mount_try_eq:
  "mount_try sys cfg cfile cp m pw s =
     (let r1 = exec sys (open_argv cp m) (Some (pw @ nl)) (fst s);
          t1 = snd s @ [Run (open_argv cp m) (fst (fst r1))];
          r2 = exec sys (mount_argv cfg (''/dev/mapper/'' @ m)) None (snd r1);
          t2 = t1 @ [Run (mount_argv cfg (''/dev/mapper/'' @ m)) (fst (fst r2))];
          stdout = py_strip (snd (fst r2));
          t3 = t2 @ [Log INFO (''udisksctl mount output: '' @ stdout)];
          failed = [ShowError ''Error'' ''Mount failed:'', Log ERROR ''Mount failed:''];
          not_found = [ShowWarning ''Mount Path Not Found''
                         (''Mount likely succeeded, but couldn'' @ quote @
                          ''t parse path from:'' @ nl @ stdout)]
      in
      if fst (fst r1) \<noteq> 0 then (snd r1, t1 @ failed)
      else if fst (fst r2) \<noteq> 0 then (snd r2, t2 @ failed)
      else
        (case parse_mount_path stdout of
           None \<Rightarrow> (snd r2, t3 @ not_found)
         | Some p \<Rightarrow>
             if p \<noteq> [] \<and> path_isdir sys p (snd r2)
             then
               (let r3 = exec sys (chown_argv cfg p) None (snd r2);
                    t4 = t3 @ [Run (chown_argv cfg p) (fst (fst r3))]
                in
                if fst (fst r3) \<noteq> 0 then (snd r3, t4 @ failed)
                else (snd r3,
                      t4 @ [ShowInfo ''Success''
                              (''Mounted '' @ cfile @ '' at:'' @ nl @ p @ nl @
                               ''Chowned to '' @ username cfg @ '' for R/W.''),
                            Log INFO (''Mounted '' @ cp @ '', chowned '' @ p @ '' to '' @
                                      username cfg @ ''.'')]))
             else (snd r2, t3 @ not_found)))"
  by (simp add: mount_try_def mount_failed_def mount_path_not_found_def subprocess_run_eq
        case_prod_beta Let_def emit_def split: option.splits)

lemma chown_argv_inj [simp]: "chown_argv cfg p = chown_argv cfg q \<longleftrightarrow> p = q"
  by (simp add: chown_argv_def)

lemma chown_argv_neq [simp]:
  "chown_argv cfg p \<noteq> open_argv cp m" "chown_argv cfg p \<noteq> mount_argv cfg' d"
  by (simp_all add: argv_defs)

lemma mount_try_chown:
  assumes "(chown_argv cfg p, rc) \<in> set (runs (snd (mount_try sys cfg cfile cp m pw s)))"
    and "runs (snd s) = []"
  shows "\<exists>stdout fin w' out.
           snd (mount_try sys cfg cfile cp m pw s) =
             snd s @ [Run (open_argv cp m) 0, Run (mount_argv cfg (''/dev/mapper/'' @ m)) 0,
                      Log INFO (''udisksctl mount output: '' @ stdout),
                      Run (chown_argv cfg p) rc] @ fin \<and>
           (rc \<noteq> 0 \<longrightarrow> fin = [ShowError ''Error'' ''Mount failed:'', Log ERROR ''Mount failed:'']) \<and>
           parse_mount_path stdout = Some p \<and> p \<noteq> [] \<and> path_isdir sys p w' \<and>
           exec sys (chown_argv cfg p) None w' =
             ((rc, out), fst (mount_try sys cfg cfile cp m pw s))"
proof -
  let ?r1 = "exec sys (open_argv cp m) (Some (pw @ nl)) (fst s)"
  let ?r2 = "exec sys (mount_argv cfg (''/dev/mapper/'' @ m)) None (snd ?r1)"
  let ?stdout = "py_strip (snd (fst ?r2))"
  let ?r3 = "exec sys (chown_argv cfg p) None (snd ?r2)"
  from assms have c: "fst (fst ?r1) = 0 \<and> fst (fst ?r2) = 0 \<and>
      parse_mount_path ?stdout = Some p \<and> p \<noteq> [] \<and> path_isdir sys p (snd ?r2) \<and>
      rc = fst (fst ?r3)"
    by (auto simp: mount_try_eq Let_def split: if_splits option.splits)
  have ex: "exec sys (chown_argv cfg p) None (snd ?r2) = ((rc, snd (fst ?r3)), snd ?r3)"
    using c by simp
  have w: "fst (mount_try sys cfg cfile cp m pw s) = snd ?r3"
    using c by (simp add: mount_try_eq Let_def)
  have tr: "\<exists>fin. snd (mount_try sys cfg cfile cp m pw s) =
             snd s @ [Run (open_argv cp m) 0, Run (mount_argv cfg (''/dev/mapper/'' @ m)) 0,
                      Log INFO (''udisksctl mount output: '' @ ?stdout),
                      Run (chown_argv cfg p) rc] @ fin \<and>
           (rc \<noteq> 0 \<longrightarrow> fin = [ShowError ''Error'' ''Mount failed:'', Log ERROR ''Mount failed:''])"
    using c by (auto simp: mount_try_eq Let_def)
  then obtain fin where fin: "snd (mount_try sys cfg cfile cp m pw s) =
             snd s @ [Run (open_argv cp m) 0, Run (mount_argv cfg (''/dev/mapper/'' @ m)) 0,
                      Log INFO (''udisksctl mount output: '' @ ?stdout),
                      Run (chown_argv cfg p) rc] @ fin"
      "rc \<noteq> 0 \<longrightarrow> fin = [ShowError ''Error'' ''Mount failed:'', Log ERROR ''Mount failed:'']"
    by blast
  show ?thesis
    apply (rule exI [of _ ?stdout])
    apply (rule exI [of _ fin])
    apply (rule exI [of _ "snd ?r2"])
    apply (rule exI [of _ "snd (fst ?r3)"])
    using fin c ex w apply simp
    done
qed

text \<open>
  C3. Whenever \<^verbatim>\<open>mount_container\<close> runs \<^verbatim>\<open>chown\<close>, unlock and mount have both exited
  with 0, the path is the one parsed from the output of the mount command, it is not
  empty, and it is a directory in the world in which \<^verbatim>\<open>chown\<close> runs. When that
  \<^verbatim>\<open>chown\<close> fails, no further command runs (the container stays unlocked and mounted)
  and the action ends with the error dialog and the error log line \<^verbatim>\<open>Mount failed\<close>,
  the report of a failed unlock or mount; it shows no other message.
\<close>

theorem chown_failure_is_reported_as_mount_failure:
  assumes "(chown_argv cfg p, rc) \<in> set (runs (snd (mount_container sys cfg req (w, []))))"
  shows "\<exists>pre cp m stdout fin w' out.
           snd (mount_container sys cfg req (w, [])) =
             pre @ [Run (open_argv cp m) 0, Run (mount_argv cfg (''/dev/mapper/'' @ m)) 0,
                    Log INFO (''udisksctl mount output: '' @ stdout),
                    Run (chown_argv cfg p) rc] @ fin \<and>
           runs pre = [] \<and> filter is_report pre = [] \<and>
           (rc \<noteq> 0 \<longrightarrow> fin = [ShowError ''Error'' ''Mount failed:'', Log ERROR ''Mount failed:'']) \<and>
           parse_mount_path stdout = Some p \<and> p \<noteq> [] \<and> path_isdir sys p w' \<and>
           exec sys (chown_argv cfg p) None w' =
             ((rc, out), fst (mount_container sys cfg req (w, [])))"
proof -
  from mount_container_reaches_try [of sys cfg req w] assms
  obtain cfile pw s where s: "runs (snd s) = []" "filter is_report (snd s) = []"
    and eq: "mount_container sys cfg req (w, []) =
        mount_try sys cfg cfile (path_join (container_dir cfg) cfile)
          (fst (splitext cfile) @ ''_mapper'') pw s"
    by auto
  from mount_try_chown [OF assms [unfolded eq] s(1)] s show ?thesis
    unfolding eq by blast
qed

lemma mount_vault_chown_fails:
  "mount_container sim_os cfg0 mount_vault (world_chown_fails, []) =
     (world_chown_fails
        \<lparr>sim_dirs := [''/mnt/data'', ''/mnt/data/c'', ''/run/media/alice/vault''],
         sim_mappers := [''vault_mapper''],
         sim_mtab := [''/dev/sdb1 /mnt/data ext4 rw,relatime 0 0'',
                      ''/dev/mapper/vault_mapper /run/media/alice/vault ext4 rw,relatime 0 0'']\<rparr>,
      [ReadProcMounts,
       AskChoice ''Select Container to Mount'' [''vault.img''],
       AskPassphrase ''LUKS Passphrase for vault.img'',
       AskYesNo ''Confirm''
         (''Mount container:'' @ nl @ ''/mnt/data/c/vault.img'' @ nl @ nl @ ''Proceed?'') True,
       Run (open_argv ''/mnt/data/c/vault.img'' ''vault_mapper'') 0,
       Run (mount_argv cfg0 ''/dev/mapper/vault_mapper'') 0,
       Log INFO (''udisksctl mount output: '' @
                 ''Mounted /dev/mapper/vault_mapper at /run/media/alice/vault.''),
       Run (chown_argv cfg0 ''/run/media/alice/vault'') 1,
       ShowError ''Error'' ''Mount failed:'',
       Log ERROR ''Mount failed:''])"
  by (simp add: mount_container_def mount_try_def mount_failed_def mount_path_not_found_def
        world_chown_fails_def mount_vault_def sim_eval)

text \<open>
  The claim as stated fails: with unlock and mount successful and \<^verbatim>\<open>chown\<close> failing,
  the container is open and mounted, and the only messages of the action are the error
  dialog and the error log line \<^verbatim>\<open>Mount failed\<close>.
\<close>

theorem chown_failure_shown_as_mount_failed:
  "runs (snd (mount_container sim_os cfg0 mount_vault (world_chown_fails, []))) =
     [(open_argv ''/mnt/data/c/vault.img'' ''vault_mapper'', 0),
      (mount_argv cfg0 ''/dev/mapper/vault_mapper'', 0),
      (chown_argv cfg0 ''/run/media/alice/vault'', 1)] \<and>
   filter is_report (snd (mount_container sim_os cfg0 mount_vault (world_chown_fails, []))) =
     [Log INFO (''udisksctl mount output: '' @
                ''Mounted /dev/mapper/vault_mapper at /run/media/alice/vault.''),
      ShowError ''Error'' ''Mount failed:'', Log ERROR ''Mount failed:''] \<and>
   detect_open_mappers sim_os
     (fst (mount_container sim_os cfg0 mount_vault (world_chown_fails, []))) = [''vault_mapper''] \<and>
   mount_records (proc_mounts sim_os
     (fst (mount_container sim_os cfg0 mount_vault (world_chown_fails, [])))) =
     [(''/dev/sdb1'', ''/mnt/data''), (''/dev/mapper/vault_mapper'', ''/run/media/alice/vault'')]"
  by (simp add: mount_vault_chown_fails) (simp add: world_chown_fails_def sim_eval)

theorem chown_failure_is_reported_as_mount_failure_witness:
  "(chown_argv cfg0 ''/run/media/alice/vault'', 1)
     \<in> set (runs (snd (mount_container sim_os cfg0 mount_vault (world_chown_fails, [])))) \<and>
   (\<exists>pre cp m stdout fin w' out.
      snd (mount_container sim_os cfg0 mount_vault (world_chown_fails, [])) =
        pre @ [Run (open_argv cp m) 0, Run (mount_argv cfg0 (''/dev/mapper/'' @ m)) 0,
               Log INFO (''udisksctl mount output: '' @ stdout),
               Run (chown_argv cfg0 ''/run/media/alice/vault'') 1] @ fin \<and>
      fin = [ShowError ''Error'' ''Mount failed:'', Log ERROR ''Mount failed:''] \<and>
      parse_mount_path stdout = Some ''/run/media/alice/vault'' \<and>
      path_isdir sim_os ''/run/media/alice/vault'' w' \<and>
      exec sim_os (chown_argv cfg0 ''/run/media/alice/vault'') None w' =
        ((1, out), fst (mount_container sim_os cfg0 mount_vault (world_chown_fails, []))))"
proof -
  have h: "(chown_argv cfg0 ''/run/media/alice/vault'', 1)
     \<in> set (runs (snd (mount_container sim_os cfg0 mount_vault (world_chown_fails, []))))"
    by (simp add: mount_vault_chown_fails)
  from chown_failure_is_reported_as_mount_failure [OF h]
  obtain pre cp m stdout fin w' out where
    "snd (mount_container sim_os cfg0 mount_vault (world_chown_fails, [])) =
        pre @ [Run (open_argv cp m) 0, Run (mount_argv cfg0 (''/dev/mapper/'' @ m)) 0,
               Log INFO (''udisksctl mount output: '' @ stdout),
               Run (chown_argv cfg0 ''/run/media/alice/vault'') 1] @ fin"
    "(1::int) \<noteq> 0 \<longrightarrow> fin = [ShowError ''Error'' ''Mount failed:'', Log ERROR ''Mount failed:'']"
    "parse_mount_path stdout = Some ''/run/media/alice/vault''"
    "path_isdir sim_os ''/run/media/alice/vault'' w'"
    "exec sim_os (chown_argv cfg0 ''/run/media/alice/vault'') None w' =
        ((1, out), fst (mount_container sim_os cfg0 mount_vault (world_chown_fails, [])))"
    by blast
  with h show ?thesis
    by (intro conjI exI [of _ pre] exI [of _ cp] exI [of _ m] exI [of _ stdout]
          exI [of _ fin] exI [of _ w'] exI [of _ out]) simp_all
qed

subsection \<open>The free-space check\<close>

lemma check_free_space_result:
  "fst (check_free_space sys directory size_str s) =
     (case parse_size_to_bytes size_str of
        SizeRaises e \<Rightarrow> Inl e
      | SizeNone \<Rightarrow> Inr False
      | SizeBytes size_bytes \<Rightarrow>
          if df_unusable sys directory (fst s) then Inr True
          else (case py_int (split_ws (df_lines sys directory (fst s) ! 1) ! 3) of
                  None \<Rightarrow> Inr True
                | Some available \<Rightarrow> Inr (\<not> size_bytes > available)))"
  by (simp add: check_free_space_def df_unusable_def df_lines_def subprocess_run_eq
        case_prod_beta Let_def split: size_result.splits option.splits)

lemma run_checked_first:
  "\<exists>rc. (argv, rc) \<in> set (runs (snd (snd (run_checked sys ((argv, inp) # cmds) s))))"
proof -
  have mono: "set (runs (snd s')) \<subseteq> set (runs (snd (snd (run_checked sys cs s'))))" for cs s'
    using run_checked_runs [of sys cs s'] by auto
  show ?thesis
    using mono [of "(snd (exec sys argv inp (fst s)),
                     snd s @ [Run argv (fst (fst (exec sys argv inp (fst s))))])" cmds]
    by (auto simp: subprocess_run_eq case_prod_beta)
qed

text \<open>
  C9. With a size that parses, \<^verbatim>\<open>_check_free_space\<close> returns true whenever the \<^verbatim>\<open>df\<close>
  command fails or its output has fewer than two lines or fewer than five columns. It
  returns false only for a size that does not parse, or when \<^verbatim>\<open>df\<close> succeeded, its
  output has the second line and the five columns, the fourth column is an integer, and
  the requested size exceeds it. And creation proceeds: when the directory check has
  passed, the three dialogs were answered, the file does not exist yet and the query
  gives nothing to compare with, a confirmed \<^verbatim>\<open>create_container\<close> runs the first step
  of the sequence.
\<close>

theorem free_space_check_only_when_query_parses:
  "(parse_size_to_bytes size_str = SizeBytes n \<and> df_unusable sys directory (fst s) \<longrightarrow>
      fst (check_free_space sys directory size_str s) = Inr True) \<and>
   (fst (check_free_space sys directory size_str s) = Inr False \<longleftrightarrow>
      parse_size_to_bytes size_str = SizeNone \<or>
      (\<exists>n available.
         parse_size_to_bytes size_str = SizeBytes n \<and>
         fst (fst (exec sys (df_argv directory) None (fst s))) = 0 \<and>
         2 \<le> length (df_lines sys directory (fst s)) \<and>
         5 \<le> length (split_ws (df_lines sys directory (fst s) ! 1)) \<and>
         py_int (split_ws (df_lines sys directory (fst s) ! 1) ! 3) = Some available \<and>
         available < n)) \<and>
   (fst (verify_container_dir_on_partition sys cfg (w, [])) = Inr True \<and>
    cr_name req = Some n0 \<and> py_strip n0 \<noteq> [] \<and>
    cr_size req = Some z0 \<and> py_strip z0 \<noteq> [] \<and>
    cr_passphrase req = Some pw \<and> pw \<noteq> [] \<and> cr_confirm req \<and>
    \<not> path_exists sys (path_join (container_dir cfg) (py_strip n0 @ ''.img''))
        (fst (snd (verify_container_dir_on_partition sys cfg (w, [])))) \<and>
    parse_size_to_bytes (py_strip z0) = SizeBytes n \<and>
    df_unusable sys (container_dir cfg)
      (fst (snd (verify_container_dir_on_partition sys cfg (w, []))))
    \<longrightarrow> (\<exists>rc. (create_argvs cfg n0 z0 pw ! 0, rc)
                \<in> set (runs (snd (create_container sys cfg req (w, []))))))"
proof (intro conjI impI)
  assume "parse_size_to_bytes size_str = SizeBytes n \<and> df_unusable sys directory (fst s)"
  then show "fst (check_free_space sys directory size_str s) = Inr True"
    by (simp add: check_free_space_result)
next
  show "fst (check_free_space sys directory size_str s) = Inr False \<longleftrightarrow>
      parse_size_to_bytes size_str = SizeNone \<or>
      (\<exists>n available.
         parse_size_to_bytes size_str = SizeBytes n \<and>
         fst (fst (exec sys (df_argv directory) None (fst s))) = 0 \<and>
         2 \<le> length (df_lines sys directory (fst s)) \<and>
         5 \<le> length (split_ws (df_lines sys directory (fst s) ! 1)) \<and>
         py_int (split_ws (df_lines sys directory (fst s) ! 1) ! 3) = Some available \<and>
         available < n)"
    by (auto simp: check_free_space_result df_unusable_def
          split: size_result.splits option.splits)
next
  assume a: "fst (verify_container_dir_on_partition sys cfg (w, [])) = Inr True \<and>
    cr_name req = Some n0 \<and> py_strip n0 \<noteq> [] \<and>
    cr_size req = Some z0 \<and> py_strip z0 \<noteq> [] \<and>
    cr_passphrase req = Some pw \<and> pw \<noteq> [] \<and> cr_confirm req \<and>
    \<not> path_exists sys (path_join (container_dir cfg) (py_strip n0 @ ''.img''))
        (fst (snd (verify_container_dir_on_partition sys cfg (w, [])))) \<and>
    parse_size_to_bytes (py_strip z0) = SizeBytes n \<and>
    df_unusable sys (container_dir cfg)
      (fst (snd (verify_container_dir_on_partition sys cfg (w, []))))"
  obtain s1 where v: "verify_container_dir_on_partition sys cfg (w, []) = (Inr True, s1)"
    using a by (cases "verify_container_dir_on_partition sys cfg (w, [])") simp
  define s4 where "s4 = emit (AskPassphrase ''LUKS Passphrase'')
       (emit (AskString ''Container Size'') (emit (AskString ''Container Name'') s1))"
  define path where "path = path_join (container_dir cfg) (py_strip n0 @ ''.img'')"
  obtain b s5 where c: "check_free_space sys (container_dir cfg) (py_strip z0) s4 = (b, s5)"
    by (cases "check_free_space sys (container_dir cfg) (py_strip z0) s4")
  have b: "b = Inr True"
    using check_free_space_result [of sys "container_dir cfg" "py_strip z0" s4] a v c
    by (simp add: s4_def)
  define s6 where "s6 = emit (AskYesNo ''Confirm''
             (''Create new LUKS container:'' @ nl @ ''File: '' @ path @ nl @
              ''Size: '' @ py_strip z0 @ nl @ nl @ ''Proceed?'') True) s5"
  have cc: "create_container sys cfg req (w, []) =
              create_try sys (py_strip n0) (py_strip z0) path pw s6"
    using a v c b
    by (simp add: create_container_def create_confirmed_def ask_for_string_def
          ask_passphrase_def askyesno_def s4_def s6_def path_def Let_def)
  have "\<exists>rc. ([''truncate'', ''-s'', py_strip z0, path], rc)
          \<in> set (runs (snd (snd (run_checked sys
                 (create_commands (py_strip n0) (py_strip z0) path pw) s6))))"
    unfolding create_commands_def Let_def by (rule run_checked_first)
  then show "\<exists>rc. (create_argvs cfg n0 z0 pw ! 0, rc)
                \<in> set (runs (snd (create_container sys cfg req (w, []))))"
    by (simp add: cc runs_create_try create_argvs_eq path_def)
qed

lemma verify_world_df_fails:
  "verify_container_dir_on_partition sim_os cfg0 (world_df_fails, []) =
     (Inr True, (world_df_fails, [ReadProcMounts]))"
  by (simp add: world_df_fails_def sim_eval)

theorem free_space_check_only_when_query_parses_witness:
  "parse_size_to_bytes ''100M'' = SizeBytes 104857600 \<and>
   df_unusable sim_os ''/mnt/data/c'' world_df_fails \<and>
   fst (check_free_space sim_os ''/mnt/data/c'' ''100M'' (world_df_fails, [])) = Inr True \<and>
   fst (check_free_space sim_os ''/mnt/data/c'' ''100M'' (world_df_small, [])) = Inr False \<and>
   (\<exists>rc. ([''truncate'', ''-s'', ''100M'', ''/mnt/data/c/vault.img''], rc)
      \<in> set (runs (snd (create_container sim_os cfg0 create_vault (world_df_fails, [])))))"
proof -
  note t = free_space_check_only_when_query_parses
  have u: "df_unusable sim_os ''/mnt/data/c'' world_df_fails"
    by (simp add: df_unusable_def df_lines_def world_df_fails_def sim_eval)
  have c1: "fst (check_free_space sim_os ''/mnt/data/c'' ''100M'' (world_df_fails, [])) = Inr True"
    using t [where size_str = "''100M''" and n = 104857600 and sys = sim_os
               and directory = "''/mnt/data/c''" and s = "(world_df_fails, [])",
             THEN conjunct1] parse_size_100M u
    by simp
  have small: "fst (fst (exec sim_os (df_argv ''/mnt/data/c'') None world_df_small)) = 0 \<and>
     2 \<le> length (df_lines sim_os ''/mnt/data/c'' world_df_small) \<and>
     5 \<le> length (split_ws (df_lines sim_os ''/mnt/data/c'' world_df_small ! 1)) \<and>
     py_int (split_ws (df_lines sim_os ''/mnt/data/c'' world_df_small ! 1) ! 3) = Some 100"
    by (simp add: df_lines_def world_df_small_def py_int_def py_int_unsigned_def sim_eval)
  have c2: "fst (check_free_space sim_os ''/mnt/data/c'' ''100M'' (world_df_small, [])) = Inr False"
    using t [where size_str = "''100M''" and sys = sim_os
               and directory = "''/mnt/data/c''" and s = "(world_df_small, [])",
             THEN conjunct2, THEN conjunct1] parse_size_100M small
    by auto
  have h3: "fst (verify_container_dir_on_partition sim_os cfg0 (world_df_fails, [])) = Inr True \<and>
    cr_name create_vault = Some ''vault'' \<and> py_strip ''vault'' \<noteq> [] \<and>
    cr_size create_vault = Some ''100M'' \<and> py_strip ''100M'' \<noteq> [] \<and>
    cr_passphrase create_vault = Some ''pw'' \<and> ''pw'' \<noteq> [] \<and> cr_confirm create_vault \<and>
    \<not> path_exists sim_os (path_join (container_dir cfg0) (py_strip ''vault'' @ ''.img''))
        (fst (snd (verify_container_dir_on_partition sim_os cfg0 (world_df_fails, [])))) \<and>
    parse_size_to_bytes (py_strip ''100M'') = SizeBytes 104857600 \<and>
    df_unusable sim_os (container_dir cfg0)
      (fst (snd (verify_container_dir_on_partition sim_os cfg0 (world_df_fails, []))))"
  proof -
    have s: "py_strip ''100M'' = ''100M''" "py_strip ''vault'' = ''vault''"
      by (simp_all add: str_defs)
    have cd: "container_dir cfg0 = ''/mnt/data/c''"
      by (simp add: cfg0_def)
    have ne: "\<not> path_exists sim_os (path_join ''/mnt/data/c'' ''vault.img'') world_df_fails"
      by (simp add: world_df_fails_def sim_eval)
    show ?thesis
      using u ne by (simp add: verify_world_df_fails s cd parse_size_100M create_vault_def)
  qed
  have c3: "\<exists>rc. ([''truncate'', ''-s'', ''100M'', ''/mnt/data/c/vault.img''], rc)
      \<in> set (runs (snd (create_container sim_os cfg0 create_vault (world_df_fails, []))))"
    using t [where sys = sim_os and cfg = cfg0 and w = world_df_fails and req = create_vault
               and ?n0.0 = "''vault''" and ?z0.0 = "''100M''" and pw = "''pw''" and n = 104857600,
             THEN conjunct2, THEN conjunct2, rule_format, OF h3]
    by (simp add: create_argvs_eq cfg0_def str_defs)
  from parse_size_100M u c1 c2 c3 show ?thesis by blast
qed

subsection \<open>The placement check creates the container directory\<close>

lemma mountpoints_of_records:
  "mountpoints_of dev lines = map snd (filter (\<lambda>r. fst r = dev) (mount_records lines))"
  by (induction lines) (auto split: list.splits)

lemma any_commonpath_False:
  "any_commonpath mnts real_cdir = Inr False \<Longrightarrow>
     \<forall>mnt \<in> set mnts. commonpath mnt real_cdir \<noteq> Inr mnt"
  by (induction mnts) (auto split: sum.splits if_splits)

lemma verify_trace_head:
  assumes "\<not> path_exists sys (container_dir cfg) (fst s)"
  shows "\<exists>rest. snd (snd (verify_container_dir_on_partition sys cfg s)) =
           snd s @ MakeDirs (container_dir cfg) (fst (makedirs sys (container_dir cfg) (fst s))) # rest"
    and "fst (snd (verify_container_dir_on_partition sys cfg s)) =
           snd (makedirs sys (container_dir cfg) (fst s))"
  using assms
  by (auto simp: verify_container_dir_on_partition_def Let_def case_prod_beta
        split: bool.splits sum.splits prod.splits)

lemma trace_extends:
  "\<exists>rest. snd (emit e s) = snd s @ rest"
  "\<exists>rest. snd (snd (subprocess_run sys argv inp s)) = snd s @ rest"
  by (simp_all add: subprocess_run_eq)

lemma run_checked_extends:
  "\<exists>rest. snd (snd (run_checked sys cmds s)) = snd s @ rest"
proof (induction cmds arbitrary: s)
  case Nil
  show ?case by simp
next
  case (Cons c cmds)
  obtain argv inp where c: "c = (argv, inp)" by (cases c)
  from Cons.IH [of "(snd (exec sys argv inp (fst s)),
                     snd s @ [Run argv (fst (fst (exec sys argv inp (fst s))))])"]
  show ?case
    by (auto simp: c subprocess_run_eq case_prod_beta)
qed

lemma check_free_space_extends:
  "\<exists>rest. snd (snd (check_free_space sys directory size_str s)) = snd s @ rest"
  by (auto simp: check_free_space_def subprocess_run_eq case_prod_beta Let_def
        split: size_result.splits option.splits)

lemma take_extends:
  "\<exists>rest. ys = xs @ rest \<Longrightarrow> n \<le> length xs \<Longrightarrow> take n ys = take n xs"
  by auto

lemma take_check_free_space:
  "n \<le> length (snd s) \<Longrightarrow>
     take n (snd (snd (check_free_space sys directory size_str s))) = take n (snd s)"
  by (rule take_extends [OF check_free_space_extends])

lemma take_create_try:
  "n \<le> length (snd s) \<Longrightarrow> take n (snd (create_try sys a b c d s)) = take n (snd s)"
proof -
  have "\<exists>rest. snd (create_try sys a b c d s) = snd s @ rest"
    using run_checked_extends [of sys "create_commands a b c d" s]
    by (auto simp: create_try_def split: prod.splits bool.splits)
  then show "n \<le> length (snd s) \<Longrightarrow> take n (snd (create_try sys a b c d s)) = take n (snd s)"
    by (rule take_extends)
qed

lemma take_mount_try:
  "n \<le> length (snd s) \<Longrightarrow> take n (snd (mount_try sys cfg a b c d s)) = take n (snd s)"
proof -
  have "\<exists>rest. snd (mount_try sys cfg a b c d s) = snd s @ rest"
    by (auto simp: mount_try_eq Let_def split: option.splits)
  then show "n \<le> length (snd s) \<Longrightarrow> take n (snd (mount_try sys cfg a b c d s)) = take n (snd s)"
    by (rule take_extends)
qed

lemma take_create_container:
  assumes "n \<le> length (snd (snd (verify_container_dir_on_partition sys cfg s)))"
  shows "take n (snd (create_container sys cfg req s)) =
           take n (snd (snd (verify_container_dir_on_partition sys cfg s)))"
proof -
  obtain r s1 where v: "verify_container_dir_on_partition sys cfg s = (r, s1)"
    by (cases "verify_container_dir_on_partition sys cfg s")
  from assms v have n: "n \<le> length (snd s1)" by simp
  have cfs: "take n (snd (case check_free_space sys q z s' of
                 (Inl e, s5) \<Rightarrow> emit (Stopped (Uncaught e)) s5
               | (Inr False, s5) \<Rightarrow> s5
               | (Inr True, s5) \<Rightarrow> create_confirmed sys req a z c d s5)) = take n (snd s')"
    if "n \<le> length (snd s')" for q z a c d s'
  proof -
    obtain b s5 where k: "check_free_space sys q z s' = (b, s5)"
      by (cases "check_free_space sys q z s'")
    from check_free_space_extends [of sys q z s'] k
    obtain r1 where r1: "snd s5 = snd s' @ r1" by auto
    with that have n5: "n \<le> length (snd s5)" "take n (snd s5) = take n (snd s')"
      by simp_all
    then show ?thesis
      using k
      by (simp add: create_confirmed_def askyesno_def take_create_try
            split: sum.splits bool.splits)
  qed
  show ?thesis
    using v n
    by (simp add: create_container_def ask_for_string_def ask_passphrase_def Let_def cfs
          split: sum.splits bool.splits option.splits)
qed

lemma take_mount_container:
  assumes "n \<le> length (snd (snd (verify_container_dir_on_partition sys cfg s)))"
  shows "take n (snd (mount_container sys cfg req s)) =
           take n (snd (snd (verify_container_dir_on_partition sys cfg s)))"
proof -
  obtain r s1 where v: "verify_container_dir_on_partition sys cfg s = (r, s1)"
    by (cases "verify_container_dir_on_partition sys cfg s")
  from assms v have n: "n \<le> length (snd s1)" by simp
  show ?thesis
    using v n
    by (simp add: mount_container_def ask_user_choice_def ask_passphrase_def askyesno_def
          Let_def take_mount_try
          split: sum.splits bool.splits option.splits)
qed

lemma take_one_head: "take (Suc 0) ys = [x] \<Longrightarrow> \<exists>rest. ys = x # rest"
  by (cases ys) simp_all

text \<open>
  \<^verbatim>\<open>_verify_container_dir_on_partition\<close> changes the world: when the container
  directory does not exist, its first act is \<^verbatim>\<open>os.makedirs\<close> on it, and the world it
  leaves is the one \<^verbatim>\<open>makedirs\<close> left. That event is the first of every
  \<^verbatim>\<open>create_container\<close> and \<^verbatim>\<open>mount_container\<close>, so it comes before the read of the
  mount table and before any dialog. And when the check returns false, then the
  directory was missing and could not be created, or no entry of the mount table is for
  the partition device, or for none of that device's mount points, as the mount table
  spells them, is \<^verbatim>\<open>commonpath\<close> of it and of the real path of the directory the
  mount point.
\<close>

lemma verify_container_dir_makedirs_first:
  "(\<not> path_exists sys (container_dir cfg) w \<longrightarrow>
      fst (snd (verify_container_dir_on_partition sys cfg (w, []))) =
        snd (makedirs sys (container_dir cfg) w) \<and>
      (\<exists>rest. snd (snd (verify_container_dir_on_partition sys cfg (w, []))) =
         MakeDirs (container_dir cfg) (fst (makedirs sys (container_dir cfg) w)) # rest) \<and>
      (\<exists>rest. snd (create_container sys cfg creq (w, [])) =
         MakeDirs (container_dir cfg) (fst (makedirs sys (container_dir cfg) w)) # rest) \<and>
      (\<exists>rest. snd (mount_container sys cfg mreq (w, [])) =
         MakeDirs (container_dir cfg) (fst (makedirs sys (container_dir cfg) w)) # rest)) \<and>
   (fst (verify_container_dir_on_partition sys cfg (w, [])) = Inr False \<longrightarrow>
      (\<not> path_exists sys (container_dir cfg) w \<and> \<not> fst (makedirs sys (container_dir cfg) w)) \<or>
      partition_device cfg \<notin>
        fst ` set (mount_records (proc_mounts sys
                     (fst (snd (verify_container_dir_on_partition sys cfg (w, [])))))) \<or>
      (\<forall>mnt. (partition_device cfg, mnt) \<in>
                set (mount_records (proc_mounts sys
                       (fst (snd (verify_container_dir_on_partition sys cfg (w, [])))))) \<longrightarrow>
             commonpath mnt
               (realpath sys (container_dir cfg)
                  (fst (snd (verify_container_dir_on_partition sys cfg (w, []))))) \<noteq> Inr mnt))"
proof (intro conjI impI)
  assume n: "\<not> path_exists sys (container_dir cfg) w"
  from verify_trace_head [of sys cfg "(w, [])"] n
  obtain rest where h: "snd (snd (verify_container_dir_on_partition sys cfg (w, []))) =
         MakeDirs (container_dir cfg) (fst (makedirs sys (container_dir cfg) w)) # rest"
    and w: "fst (snd (verify_container_dir_on_partition sys cfg (w, []))) =
        snd (makedirs sys (container_dir cfg) w)"
    by auto
  show "fst (snd (verify_container_dir_on_partition sys cfg (w, []))) =
        snd (makedirs sys (container_dir cfg) w)"
    by (rule w)
  show "\<exists>rest. snd (snd (verify_container_dir_on_partition sys cfg (w, []))) =
         MakeDirs (container_dir cfg) (fst (makedirs sys (container_dir cfg) w)) # rest"
    using h by blast
  show "\<exists>rest. snd (create_container sys cfg creq (w, [])) =
         MakeDirs (container_dir cfg) (fst (makedirs sys (container_dir cfg) w)) # rest"
    using take_create_container [of "Suc 0" sys cfg "(w, [])" creq] h
    by (intro take_one_head) simp
  show "\<exists>rest. snd (mount_container sys cfg mreq (w, [])) =
         MakeDirs (container_dir cfg) (fst (makedirs sys (container_dir cfg) w)) # rest"
    using take_mount_container [of "Suc 0" sys cfg "(w, [])" mreq] h
    by (intro take_one_head) simp
next
  let ?w1 = "fst (snd (verify_container_dir_on_partition sys cfg (w, [])))"
  assume f: "fst (verify_container_dir_on_partition sys cfg (w, [])) = Inr False"
  show "(\<not> path_exists sys (container_dir cfg) w \<and> \<not> fst (makedirs sys (container_dir cfg) w)) \<or>
      partition_device cfg \<notin> fst ` set (mount_records (proc_mounts sys ?w1)) \<or>
      (\<forall>mnt. (partition_device cfg, mnt) \<in> set (mount_records (proc_mounts sys ?w1)) \<longrightarrow>
             commonpath mnt (realpath sys (container_dir cfg) ?w1) \<noteq> Inr mnt)"
  proof (cases "\<not> path_exists sys (container_dir cfg) w \<and>
                \<not> fst (makedirs sys (container_dir cfg) w)")
    case True
    then show ?thesis by simp
  next
    case False
    let ?ms = "mountpoints_of (partition_device cfg) (proc_mounts sys ?w1)"
    from f False have k: "?ms = [] \<or>
        any_commonpath ?ms (realpath sys (container_dir cfg) ?w1) = Inr False"
      by (auto simp: verify_container_dir_on_partition_def Let_def case_prod_beta
            split: if_splits bool.splits sum.splits prod.splits)
    then show ?thesis
    proof
      assume "?ms = []"
      then have "partition_device cfg \<notin> fst ` set (mount_records (proc_mounts sys ?w1))"
        by (auto simp: mountpoints_of_records filter_empty_conv)
      then show ?thesis by simp
    next
      assume "any_commonpath ?ms (realpath sys (container_dir cfg) ?w1) = Inr False"
      from any_commonpath_False [OF this]
      have "\<forall>mnt. (partition_device cfg, mnt) \<in> set (mount_records (proc_mounts sys ?w1)) \<longrightarrow>
             commonpath mnt (realpath sys (container_dir cfg) ?w1) \<noteq> Inr mnt"
        by (force simp: mountpoints_of_records)
      then show ?thesis by simp
    qed
  qed
qed

lemma verify_world_no_cdir:
  "verify_container_dir_on_partition sim_os cfg0 (world_no_cdir, []) =
     (Inr True, (world_no_cdir\<lparr>sim_dirs := [''/mnt/data'', ''/mnt/data/c'']\<rparr>,
                 [MakeDirs ''/mnt/data/c'' True, ReadProcMounts]))"
  by (simp add: world_no_cdir_def sim_eval)

lemma verify_world_not_mounted:
  "verify_container_dir_on_partition sim_os cfg0 (world_not_mounted, []) =
     (Inr False,
      (world_not_mounted,
       [ReadProcMounts,
        ShowError ''Error''
          (''/dev/sdb1 is not mounted.'' @ nl @ ''Please mount it before using this app.'')]))"
  by (simp add: world_not_mounted_def sim_eval)

lemma verify_container_dir_makedirs_first_at_missing_directory:
  "\<not> path_exists sim_os (container_dir cfg0) world_no_cdir \<and>
   fst (snd (verify_container_dir_on_partition sim_os cfg0 (world_no_cdir, []))) =
     world_no_cdir\<lparr>sim_dirs := [''/mnt/data'', ''/mnt/data/c'']\<rparr> \<and>
   (\<exists>rest. snd (create_container sim_os cfg0 create_vault (world_no_cdir, [])) =
      MakeDirs ''/mnt/data/c'' True # rest) \<and>
   (\<exists>rest. snd (mount_container sim_os cfg0 mount_vault (world_no_cdir, [])) =
      MakeDirs ''/mnt/data/c'' True # rest) \<and>
   fst (verify_container_dir_on_partition sim_os cfg0 (world_not_mounted, [])) = Inr False \<and>
   partition_device cfg0 \<notin> fst ` set (mount_records (proc_mounts sim_os world_not_mounted))"
proof -
  have h1: "\<not> path_exists sim_os (container_dir cfg0) world_no_cdir"
    by (simp add: world_no_cdir_def sim_eval)
  have mk: "makedirs sim_os ''/mnt/data/c'' world_no_cdir =
              (True, world_no_cdir\<lparr>sim_dirs := [''/mnt/data'', ''/mnt/data/c'']\<rparr>)"
    by (simp add: world_no_cdir_def sim_eval)
  have cd: "container_dir cfg0 = ''/mnt/data/c''"
    by (simp add: cfg0_def)
  note t1 = verify_container_dir_makedirs_first
    [where sys = sim_os and cfg = cfg0 and w = world_no_cdir and creq = create_vault
       and mreq = mount_vault, THEN conjunct1, rule_format, OF h1]
  have h2: "fst (verify_container_dir_on_partition sim_os cfg0 (world_not_mounted, [])) = Inr False"
    by (simp add: verify_world_not_mounted)
  have ex: "path_exists sim_os (container_dir cfg0) world_not_mounted"
    by (simp add: world_not_mounted_def sim_eval)
  have cp: "commonpath ''/'' ''/mnt/data/c'' = Inr ''/''"
    by (simp add: str_defs)
  have nm: "partition_device cfg0 \<notin>
              fst ` set (mount_records (proc_mounts sim_os world_not_mounted))"
    by (simp add: world_not_mounted_def sim_eval)
  note t2 = verify_container_dir_makedirs_first
    [where sys = sim_os and cfg = cfg0 and w = world_not_mounted, THEN conjunct2, rule_format,
     OF h2]
  from t1 t2 h1 h2 nm show ?thesis
    by (simp add: mk cd)
qed

lemma verify_world_spaced:
  "verify_container_dir_on_partition sim_os cfg_spaced (world_spaced, []) =
     (Inr False,
      (world_spaced,
       [ReadProcMounts,
        ShowError ''Error''
          (''The container directory (/media/alice/My Passport/c) is not on /dev/sdb1.'' @ nl @
           ''Aborting.'')]))"
  by (simp add: cfg_spaced_def world_spaced_def backslash_def sim_eval)

text \<open>
  C10. The check does create a missing container directory first, before the mount
  table is read and before any dialog. But it returns false also for a directory that
  lies under a mount point of the partition device: it compares the real path with the
  mount point as \<^verbatim>\<open>/proc/mounts\<close> spells it. With \<^verbatim>\<open>/dev/sdb1\<close> mounted at
  \<^verbatim>\<open>/media/alice/My Passport\<close> the mount table holds \<^verbatim>\<open>My\<close>, a backslash and
  \<^verbatim>\<open>040Passport\<close>; the container directory \<^verbatim>\<open>/media/alice/My Passport/c\<close> exists, its
  real path is under the mount point, and the check shows that the directory is not on
  \<^verbatim>\<open>/dev/sdb1\<close> and returns false, so that \<^verbatim>\<open>create_container\<close> ends there.
\<close>

theorem verify_container_dir_rejects_spaced_mount_point:
  "proc_mounts sim_os world_spaced =
     [''/dev/sdb1 /media/alice/My'' @ backslash @ ''040Passport ext4 rw,relatime 0 0''] \<and>
   mountpoints_of (partition_device cfg_spaced) (proc_mounts sim_os world_spaced) =
     [''/media/alice/My'' @ backslash @ ''040Passport''] \<and>
   map mtab_unescape
     (mountpoints_of (partition_device cfg_spaced) (proc_mounts sim_os world_spaced)) =
     [''/media/alice/My Passport''] \<and>
   path_exists sim_os (container_dir cfg_spaced) world_spaced \<and>
   realpath sim_os (container_dir cfg_spaced) world_spaced = ''/media/alice/My Passport/c'' \<and>
   commonpath ''/media/alice/My Passport'' ''/media/alice/My Passport/c'' =
     Inr ''/media/alice/My Passport'' \<and>
   verify_container_dir_on_partition sim_os cfg_spaced (world_spaced, []) =
     (Inr False,
      (world_spaced,
       [ReadProcMounts,
        ShowError ''Error''
          (''The container directory (/media/alice/My Passport/c) is not on /dev/sdb1.'' @ nl @
           ''Aborting.'')])) \<and>
   create_container sim_os cfg_spaced create_vault (world_spaced, []) =
     (world_spaced,
      [ReadProcMounts,
       ShowError ''Error''
         (''The container directory (/media/alice/My Passport/c) is not on /dev/sdb1.'' @ nl @
          ''Aborting.'')])"
proof -
  have a: "proc_mounts sim_os world_spaced =
     [''/dev/sdb1 /media/alice/My'' @ backslash @ ''040Passport ext4 rw,relatime 0 0'']"
    by (simp add: world_spaced_def sim_os_def)
  have b: "mountpoints_of (partition_device cfg_spaced) (proc_mounts sim_os world_spaced) =
     [''/media/alice/My'' @ backslash @ ''040Passport'']"
    by (simp add: cfg_spaced_def world_spaced_def backslash_def sim_os_def str_defs)
  have c: "mtab_unescape (''/media/alice/My'' @ backslash @ ''040Passport'') =
     ''/media/alice/My Passport''"
    by (simp add: backslash_def mtab_escapes_def)
  have d: "path_exists sim_os (container_dir cfg_spaced) world_spaced"
    by (simp add: cfg_spaced_def world_spaced_def sim_os_def)
  have e: "realpath sim_os (container_dir cfg_spaced) world_spaced = ''/media/alice/My Passport/c''"
    by (simp add: cfg_spaced_def sim_os_def)
  have f: "commonpath ''/media/alice/My Passport'' ''/media/alice/My Passport/c'' =
     Inr ''/media/alice/My Passport''"
    by (simp add: str_defs)
  have g: "create_container sim_os cfg_spaced create_vault (world_spaced, []) =
     (world_spaced,
      [ReadProcMounts,
       ShowError ''Error''
         (''The container directory (/media/alice/My Passport/c) is not on /dev/sdb1.'' @ nl @
          ''Aborting.'')])"
    by (simp add: create_container_def verify_world_spaced)
  from a b c d e f g verify_world_spaced show ?thesis
    by simp
qed

subsection \<open>Mount, then unmount: the round trip\<close>

lemma mount_argv_inj [simp]: "mount_argv cfg d = mount_argv cfg d' \<longleftrightarrow> d = d'"
  by (simp add: mount_argv_def)

lemma mount_argv_neq [simp]:
  "mount_argv cfg d \<noteq> open_argv cp m" "mount_argv cfg d \<noteq> chown_argv cfg' p"
  by (simp_all add: argv_defs)

lemma endswith_append [simp]: "endswith (xs @ suf) suf"
  by (simp add: endswith_def)

lemma mount_try_mounted:
  assumes "(mount_argv cfg d, 0) \<in> set (runs (snd (mount_try sys cfg cfile cp m pw s)))"
    and "runs (snd s) = []"
  shows "\<exists>o1 w1 o2 w2.
           d = ''/dev/mapper/'' @ m \<and>
           exec sys (open_argv cp m) (Some (pw @ nl)) (fst s) = ((0, o1), w1) \<and>
           exec sys (mount_argv cfg d) None w1 = ((0, o2), w2) \<and>
           (fst (mount_try sys cfg cfile cp m pw s) = w2 \<or>
            (\<exists>p. fst (mount_try sys cfg cfile cp m pw s) =
                   snd (exec sys (chown_argv cfg p) None w2)))"
proof -
  let ?r1 = "exec sys (open_argv cp m) (Some (pw @ nl)) (fst s)"
  let ?r2 = "exec sys (mount_argv cfg (''/dev/mapper/'' @ m)) None (snd ?r1)"
  from assms have c: "d = ''/dev/mapper/'' @ m \<and> fst (fst ?r1) = 0 \<and> fst (fst ?r2) = 0"
    by (auto simp: mount_try_eq Let_def split: if_splits option.splits)
  then have e1: "?r1 = ((0, snd (fst ?r1)), snd ?r1)"
    and e2: "exec sys (mount_argv cfg d) None (snd ?r1) = ((0, snd (fst ?r2)), snd ?r2)"
    by (simp_all add: prod_eq_iff)
  have f: "fst (mount_try sys cfg cfile cp m pw s) = snd ?r2 \<or>
            (\<exists>p. fst (mount_try sys cfg cfile cp m pw s) =
                   snd (exec sys (chown_argv cfg p) None (snd ?r2)))"
    using c by (auto simp: mount_try_eq Let_def split: option.splits)
  from c e1 e2 f show ?thesis
    by blast
qed

lemma unmount_container_closed:
  assumes "(close_argv m, 0) \<in> set (runs (snd (unmount_container sys cfg req (w, []))))"
  shows "\<exists>o1 w1 o2.
           exec sys (unmount_argv cfg (''/dev/mapper/'' @ m)) None w = ((0, o1), w1) \<and>
           exec sys (close_argv m) None w1 = ((0, o2), fst (unmount_container sys cfg req (w, [])))"
proof -
  let ?r1 = "exec sys (unmount_argv cfg (''/dev/mapper/'' @ m)) None w"
  let ?r2 = "exec sys (close_argv m) None (snd ?r1)"
  from assms have c: "fst (fst ?r1) = 0 \<and> fst (fst ?r2) = 0 \<and>
      fst (unmount_container sys cfg req (w, [])) = snd ?r2"
    by (auto simp: unmount_container_def Let_def ask_user_choice_def askyesno_def
          subprocess_run_eq case_prod_beta close_argv_def unmount_argv_def
          split: option.splits bool.splits if_splits)
  then have "?r1 = ((0, snd (fst ?r1)), snd ?r1)"
    and "?r2 = ((0, snd (fst ?r2)), fst (unmount_container sys cfg req (w, [])))"
    by (simp_all add: prod_eq_iff)
  then show ?thesis by blast
qed

lemma lifecycle_open:
  assumes "tools_follow_lifecycle sys"
    and "exec sys (open_argv cp m) inp w = ((0, out), w')" and "endswith m ''_mapper''"
  shows "observed sys w' = (insert m (fst (observed sys w)), snd (observed sys w))"
proof -
  from assms(1) have "\<forall>cp m inp w out w'.
        exec sys (open_argv cp m) inp w = ((0, out), w') \<and> endswith m ''_mapper'' \<longrightarrow>
        observed sys w' = (insert m (fst (observed sys w)), snd (observed sys w))"
    unfolding tools_follow_lifecycle_def by (rule conjunct1)
  from this [rule_format, of cp m inp w out w'] assms(2,3) show ?thesis by simp
qed

lemma lifecycle_mount:
  assumes "tools_follow_lifecycle sys" and "exec sys (mount_argv cfg d) None w = ((0, out), w')"
  shows "fst (observed sys w') = fst (observed sys w) \<and>
         {r \<in> snd (observed sys w'). fst r \<noteq> d} = {r \<in> snd (observed sys w). fst r \<noteq> d}"
proof -
  from assms(1) have "\<forall>cfg d w out w'.
        exec sys (mount_argv cfg d) None w = ((0, out), w') \<longrightarrow>
        fst (observed sys w') = fst (observed sys w) \<and>
        {r \<in> snd (observed sys w'). fst r \<noteq> d} = {r \<in> snd (observed sys w). fst r \<noteq> d}"
    unfolding tools_follow_lifecycle_def by (elim conjE)
  from this [rule_format, of cfg d w out w'] assms(2) show ?thesis by simp
qed

lemma lifecycle_unmount:
  assumes "tools_follow_lifecycle sys" and "exec sys (unmount_argv cfg d) None w = ((0, out), w')"
  shows "fst (observed sys w') = fst (observed sys w) \<and>
         snd (observed sys w') = {r \<in> snd (observed sys w). fst r \<noteq> d}"
proof -
  from assms(1) have "\<forall>cfg d w out w'.
        exec sys (unmount_argv cfg d) None w = ((0, out), w') \<longrightarrow>
        fst (observed sys w') = fst (observed sys w) \<and>
        snd (observed sys w') = {r \<in> snd (observed sys w). fst r \<noteq> d}"
    unfolding tools_follow_lifecycle_def by (elim conjE)
  from this [rule_format, of cfg d w out w'] assms(2) show ?thesis by simp
qed

lemma lifecycle_close:
  assumes "tools_follow_lifecycle sys" and "exec sys (close_argv m) None w = ((0, out), w')"
  shows "observed sys w' = (fst (observed sys w) - {m}, snd (observed sys w))"
proof -
  from assms(1) have "\<forall>m w out w'.
        exec sys (close_argv m) None w = ((0, out), w') \<longrightarrow>
        observed sys w' = (fst (observed sys w) - {m}, snd (observed sys w))"
    unfolding tools_follow_lifecycle_def by (elim conjE)
  from this [rule_format, of m w out w'] assms(2) show ?thesis by simp
qed

lemma lifecycle_chown:
  assumes "tools_follow_lifecycle sys"
  shows "observed sys (snd (exec sys (chown_argv cfg p) None w)) = observed sys w"
proof -
  from assms have "\<forall>cfg p w.
      observed sys (snd (exec sys (chown_argv cfg p) None w)) = observed sys w"
    unfolding tools_follow_lifecycle_def by (elim conjE)
  then show ?thesis by simp
qed

text \<open>
  C7. Let the external tools follow the lifecycle, let the container directory exist,
  and let the device of the container have no mount record (the container is locked).
  If \<^verbatim>\<open>mount_container\<close> has unlocked and mounted the container (both commands exited
  with 0) and \<^verbatim>\<open>unmount_container\<close>, run next on the same mapper, has unmounted and
  closed it, then the observed state, open mappers and mount records, is what it was
  before the mount. That the mapper was not open before is not assumed: the check of
  \<^verbatim>\<open>mount_container\<close> against \<^verbatim>\<open>_detect_open_mappers\<close> gives it.
\<close>

theorem mount_then_unmount_round_trip:
  assumes tools: "tools_follow_lifecycle sys"
    and dir: "path_exists sys (container_dir cfg) w"
    and locked: "''/dev/mapper/'' @ m \<notin> fst ` snd (observed sys w)"
    and mounted: "(mount_argv cfg (''/dev/mapper/'' @ m), 0)
                    \<in> set (runs (snd (mount_container sys cfg req (w, []))))"
    and closed: "(close_argv m, 0)
                    \<in> set (runs (snd (unmount_container sys cfg req'
                                        (fst (mount_container sys cfg req (w, [])), []))))"
  shows "observed sys
           (fst (unmount_container sys cfg req' (fst (mount_container sys cfg req (w, [])), []))) =
         observed sys w"
proof -
  let ?d = "''/dev/mapper/'' @ m"
  let ?wm = "fst (mount_container sys cfg req (w, []))"
  from mount_container_reaches_try [of sys cfg req w] mounted
  obtain cfile pw s where s: "runs (snd s) = []"
    and vt: "fst (verify_container_dir_on_partition sys cfg (w, [])) = Inr True"
    and ws: "fst s = fst (snd (verify_container_dir_on_partition sys cfg (w, [])))"
    and guard: "fst (splitext cfile) @ ''_mapper'' \<notin> set (detect_open_mappers sys (fst s))"
    and eq: "mount_container sys cfg req (w, []) =
        mount_try sys cfg cfile (path_join (container_dir cfg) cfile)
          (fst (splitext cfile) @ ''_mapper'') pw s"
    by auto
  have w0: "fst s = w"
    using verify_True [of sys cfg "(w, [])" "snd (verify_container_dir_on_partition sys cfg (w, []))"]
      vt dir ws
    by (simp add: prod_eq_iff)
  let ?m' = "fst (splitext cfile) @ ''_mapper''"
  from mount_try_mounted [OF mounted [unfolded eq] s]
  obtain o1 w1 o2 w2 where dm: "?d = ''/dev/mapper/'' @ ?m'"
    and y1: "exec sys (open_argv (path_join (container_dir cfg) cfile) ?m') (Some (pw @ nl)) (fst s) =
               ((0, o1), w1)"
    and x2: "exec sys (mount_argv cfg ?d) None w1 = ((0, o2), w2)"
    and y3: "fst (mount_try sys cfg cfile (path_join (container_dir cfg) cfile) ?m' pw s) = w2 \<or>
             (\<exists>p. fst (mount_try sys cfg cfile (path_join (container_dir cfg) cfile) ?m' pw s) =
                    snd (exec sys (chown_argv cfg p) None w2))"
    by blast
  from dm have m: "m = ?m'"
    by simp
  from y1 have x1: "exec sys (open_argv (path_join (container_dir cfg) cfile) m) (Some (pw @ nl)) w =
               ((0, o1), w1)"
    by (simp add: m w0)
  from y3 have x3: "?wm = w2 \<or> (\<exists>p. ?wm = snd (exec sys (chown_argv cfg p) None w2))"
    by (simp add: eq)
  from unmount_container_closed [OF closed]
  obtain o3 w3 o4 where x4: "exec sys (unmount_argv cfg ?d) None ?wm = ((0, o3), w3)"
    and x5: "exec sys (close_argv m) None w3 =
               ((0, o4), fst (unmount_container sys cfg req' (?wm, [])))"
    by blast
  have notopen: "m \<notin> fst (observed sys w)"
    using guard m w0 by (simp add: observed_def)
  have e: "endswith m ''_mapper''"
    by (simp add: m)
  have b1: "observed sys w1 = (insert m (fst (observed sys w)), snd (observed sys w))"
    by (rule lifecycle_open [OF tools x1 e])
  have b2: "fst (observed sys w2) = fst (observed sys w1)"
    "{r \<in> snd (observed sys w2). fst r \<noteq> ?d} = {r \<in> snd (observed sys w1). fst r \<noteq> ?d}"
    using lifecycle_mount [OF tools x2] by simp_all
  from x3 lifecycle_chown [OF tools, of cfg _ w2] have b3': "observed sys ?wm = observed sys w2"
    by auto
  have b4: "fst (observed sys w3) = fst (observed sys ?wm)"
    "snd (observed sys w3) = {r \<in> snd (observed sys ?wm). fst r \<noteq> ?d}"
    using lifecycle_unmount [OF tools x4] by simp_all
  have b5: "observed sys (fst (unmount_container sys cfg req' (?wm, []))) =
      (fst (observed sys w3) - {m}, snd (observed sys w3))"
    by (rule lifecycle_close [OF tools x5])
  have r: "{r \<in> snd (observed sys w). fst r \<noteq> ?d} = snd (observed sys w)"
    using locked by force
  have "fst (observed sys w3) - {m} = fst (observed sys w)"
    using b4(1) b3' b2(1) b1 notopen by simp
  moreover have "snd (observed sys w3) = snd (observed sys w)"
    using b4(2) b3' b2(2) b1 r by simp
  ultimately show ?thesis
    by (simp add: b5 prod_eq_iff)
qed

text \<open>The simulated system follows the lifecycle.\<close>

lemma mount_records_append:
  "mount_records (xs @ ys) = mount_records xs @ mount_records ys"
  by (induction xs) (auto split: list.splits)

lemma mount_records_filter:
  "mount_records (filter (\<lambda>l. mtab_device l \<noteq> Some d) ls) =
     filter (\<lambda>r. fst r \<noteq> d) (mount_records ls)"
  by (induction ls) (auto simp: mtab_device_def split: list.splits)

lemma mapper_not_control: "endswith m ''_mapper'' \<Longrightarrow> m \<noteq> ''control''"
  by (auto simp: endswith_def)

lemma sim_observed:
  "observed sim_os w =
     (set (filter (\<lambda>m. endswith m ''_mapper'' \<and> m \<noteq> ''control'') (sim_mappers w)),
      set (mount_records (sim_mtab w)))"
  by (simp add: observed_def detect_open_mappers_def sim_os_def endswith_def)

lemma sim_open:
  assumes "exec sim_os (open_argv cp m) inp w = ((0, out), w')" and "endswith m ''_mapper''"
  shows "observed sim_os w' = (insert m (fst (observed sim_os w)), snd (observed sim_os w))"
proof -
  from assms(1) have "w' = w\<lparr>sim_mappers := sim_mappers w @ [m]\<rparr>"
    by (simp add: sim_os_def sim_exec_def open_argv_def split: if_splits)
  with assms(2) mapper_not_control [OF assms(2)] show ?thesis
    by (auto simp: sim_observed)
qed

lemma sim_mount:
  assumes "exec sim_os (mount_argv cfg d) None w = ((0, out), w')"
  shows "fst (observed sim_os w') = fst (observed sim_os w) \<and>
         {r \<in> snd (observed sim_os w'). fst r \<noteq> d} = {r \<in> snd (observed sim_os w). fst r \<noteq> d}"
proof -
  let ?p = "sim_mount_point (username cfg) d"
  from assms have "sim_mappers w' = sim_mappers w \<and>
      sim_mtab w' = sim_mtab w @ [mtab_line d ?p] \<and> mount_records [mtab_line d ?p] = [(d, ?p)]"
    by (auto simp: sim_os_def sim_exec_def mount_argv_def Let_def split: if_splits)
  then show ?thesis
    by (auto simp: sim_observed mount_records_append)
qed

lemma sim_unmount:
  assumes "exec sim_os (unmount_argv cfg d) None w = ((0, out), w')"
  shows "fst (observed sim_os w') = fst (observed sim_os w) \<and>
         snd (observed sim_os w') = {r \<in> snd (observed sim_os w). fst r \<noteq> d}"
proof -
  from assms have "sim_mappers w' = sim_mappers w \<and>
      sim_mtab w' = filter (\<lambda>l. mtab_device l \<noteq> Some d) (sim_mtab w)"
    by (auto simp: sim_os_def sim_exec_def unmount_argv_def Let_def split: if_splits)
  then show ?thesis
    by (auto simp: sim_observed mount_records_filter)
qed

lemma sim_close:
  assumes "exec sim_os (close_argv m) None w = ((0, out), w')"
  shows "observed sim_os w' = (fst (observed sim_os w) - {m}, snd (observed sim_os w))"
proof -
  from assms have "w' = w\<lparr>sim_mappers := removeAll m (sim_mappers w)\<rparr>"
    by (simp add: sim_os_def sim_exec_def close_argv_def split: if_splits)
  then show ?thesis
    by (auto simp: sim_observed)
qed

lemma sim_chown:
  "observed sim_os (snd (exec sim_os (chown_argv cfg p) None w)) = observed sim_os w"
  by (simp add: sim_os_def sim_exec_def chown_argv_def sim_observed [unfolded sim_os_def])

lemma sim_follows_lifecycle: "tools_follow_lifecycle sim_os"
  unfolding tools_follow_lifecycle_def
  using sim_open sim_mount sim_unmount sim_close sim_chown
  by (intro conjI allI impI) blast+

lemma mount_vault_succeeds:
  "mount_container sim_os cfg0 mount_vault (world_vault, []) =
     (world_vault_mounted,
      [ReadProcMounts,
       AskChoice ''Select Container to Mount'' [''vault.img''],
       AskPassphrase ''LUKS Passphrase for vault.img'',
       AskYesNo ''Confirm''
         (''Mount container:'' @ nl @ ''/mnt/data/c/vault.img'' @ nl @ nl @ ''Proceed?'') True,
       Run (open_argv ''/mnt/data/c/vault.img'' ''vault_mapper'') 0,
       Run (mount_argv cfg0 ''/dev/mapper/vault_mapper'') 0,
       Log INFO (''udisksctl mount output: '' @
                 ''Mounted /dev/mapper/vault_mapper at /run/media/alice/vault.''),
       Run (chown_argv cfg0 ''/run/media/alice/vault'') 0,
       ShowInfo ''Success''
         (''Mounted vault.img at:'' @ nl @ ''/run/media/alice/vault'' @ nl @
          ''Chowned to alice for R/W.''),
       Log INFO ''Mounted /mnt/data/c/vault.img, chowned /run/media/alice/vault to alice.''])"
  by (simp add: mount_container_def mount_try_def mount_failed_def mount_path_not_found_def
        world_vault_def world_vault_mounted_def mount_vault_def sim_eval)

theorem mount_then_unmount_round_trip_witness:
  "tools_follow_lifecycle sim_os \<and>
   path_exists sim_os (container_dir cfg0) world_vault \<and>
   ''/dev/mapper/'' @ ''vault_mapper'' \<notin> fst ` snd (observed sim_os world_vault) \<and>
   (mount_argv cfg0 (''/dev/mapper/'' @ ''vault_mapper''), 0)
      \<in> set (runs (snd (mount_container sim_os cfg0 mount_vault (world_vault, [])))) \<and>
   (close_argv ''vault_mapper'', 0)
      \<in> set (runs (snd (unmount_container sim_os cfg0 unmount_vault
                          (fst (mount_container sim_os cfg0 mount_vault (world_vault, [])), [])))) \<and>
   observed sim_os (fst (mount_container sim_os cfg0 mount_vault (world_vault, []))) =
     ({''vault_mapper''},
      {(''/dev/sdb1'', ''/mnt/data''), (''/dev/mapper/vault_mapper'', ''/run/media/alice/vault'')}) \<and>
   observed sim_os
     (fst (unmount_container sim_os cfg0 unmount_vault
             (fst (mount_container sim_os cfg0 mount_vault (world_vault, [])), []))) =
     observed sim_os world_vault \<and>
   observed sim_os world_vault = ({}, {(''/dev/sdb1'', ''/mnt/data'')})"
proof -
  have ov: "observed sim_os world_vault = ({}, {(''/dev/sdb1'', ''/mnt/data'')})"
    by (simp add: sim_observed world_vault_def world0_def str_defs)
  have om: "observed sim_os world_vault_mounted =
     ({''vault_mapper''},
      {(''/dev/sdb1'', ''/mnt/data''), (''/dev/mapper/vault_mapper'', ''/run/media/alice/vault'')})"
    by (simp add: sim_observed world_vault_mounted_def world0_def str_defs)
  have h2: "path_exists sim_os (container_dir cfg0) world_vault"
    by (simp add: world_vault_def sim_eval)
  have h3: "''/dev/mapper/'' @ ''vault_mapper'' \<notin> fst ` snd (observed sim_os world_vault)"
    by (simp add: ov)
  have h4: "(mount_argv cfg0 (''/dev/mapper/'' @ ''vault_mapper''), 0)
      \<in> set (runs (snd (mount_container sim_os cfg0 mount_vault (world_vault, []))))"
    by (simp add: mount_vault_succeeds)
  have h5: "(close_argv ''vault_mapper'', 0)
      \<in> set (runs (snd (unmount_container sim_os cfg0 unmount_vault
                          (fst (mount_container sim_os cfg0 mount_vault (world_vault, [])), []))))"
    by (simp add: mount_vault_succeeds unmount_vault_mounted)
  note rt = mount_then_unmount_round_trip [OF sim_follows_lifecycle h2 h3 h4 h5]
  have om': "observed sim_os (fst (mount_container sim_os cfg0 mount_vault (world_vault, []))) =
     ({''vault_mapper''},
      {(''/dev/sdb1'', ''/mnt/data''), (''/dev/mapper/vault_mapper'', ''/run/media/alice/vault'')})"
    by (simp add: mount_vault_succeeds om)
  from sim_follows_lifecycle h2 h3 h4 h5 om' rt ov show ?thesis
    by (intro conjI)
qed

end
